theory Spec2Isabelle
  imports Main "HOL-Library.Word"
begin

section \<open>The simulator's plan runner (x/programs/cmd/simulator/cmd/plan.go)\<close>

text \<open>
  A shallow embedding of \<^verbatim>\<open>plan.go\<close>. Go strings and byte slices are both sequences of
  bytes and \<^verbatim>\<open>string(b)\<close>, \<^verbatim>\<open>[]byte(s)\<close> copy them unchanged, so both are \<open>string\<close>
  (a list of 8-bit characters). Go's \<^verbatim>\<open>int\<close> and \<^verbatim>\<open>int64\<close> are 64-bit words (a 64-bit
  platform), \<^verbatim>\<open>uint64\<close> is a 64-bit word read unsigned. Logging is not modelled.
\<close>

type_synonym go_int = "64 word"
type_synonym uint64 = "64 word"
type_synonym int64 = "64 word"

subsection \<open>Data model\<close>

text \<open>
  Modelled from the spec: the declarations of \<^verbatim>\<open>Endpoint\<close>, \<^verbatim>\<open>Type\<close>, \<^verbatim>\<open>Parameter\<close>,
  \<^verbatim>\<open>Step\<close> and \<^verbatim>\<open>Response\<close> are in another file of the package. Both \<^verbatim>\<open>Endpoint\<close> and
  \<^verbatim>\<open>Type\<close> are string types with named constants, so a value read from a plan can be
  any other string as well: the last constructor of each datatype.
\<close>

datatype Endpoint = EndpointKey | EndpointExecute | EndpointReadOnly | EndpointOther string

datatype Type = String | Bool | ID | KeyEd25519 | KeySecp256k1 | Uint64 | TypeOther string

record Parameter =
  Type :: Type
  Value :: string

text \<open>
  A Go slice is either \<^verbatim>\<open>nil\<close> or a (possibly empty) sequence; \<^verbatim>\<open>Verify\<close> tells the two
  apart, so \<open>Params\<close> is \<open>None\<close> for the nil slice and \<open>Some ps\<close> otherwise.
\<close>

record Step =
  Endpoint :: Endpoint
  Method :: string
  MaxUnits :: uint64
  Params :: "Parameter list option"

text \<open>Modelled from the spec: the reserved method that denotes program creation.\<close>

definition ProgramCreate :: string where
  "ProgramCreate = ''program create''"

text \<open>The elements of a slice, for \<^verbatim>\<open>range\<close>, \<^verbatim>\<open>len\<close> and indexing: a nil slice has none.\<close>

fun elems :: "'a list option \<Rightarrow> 'a list" where
  "elems None = []"
| "elems (Some xs) = xs"

subsection \<open>Errors and panics\<close>

text \<open>
  An error value is a sentinel of some package, a text built by \<^verbatim>\<open>errors.New\<close>, a
  \<^verbatim>\<open>fmt.Errorf\<close> value (its format, the errors its \<^verbatim>\<open>%w\<close> verbs wrap, and its other
  arguments) or a \<^verbatim>\<open>strconv.NumError\<close> (function, input, wrapped cause).
\<close>

datatype arg = ArgString string | ArgInt go_int | ArgNat nat | ArgType Type | ArgEndpoint Endpoint

datatype error =
    ErrInvalidPlan | ErrInvalidStep | ErrInvalidEndpoint | ErrInvalidParamType
  | ErrFirstParamRequiredID | ErrFirstParamRequiredString
  | ErrNamedKeyNotFound | ErrDuplicateKeyName
  | ErrInvalidHashLen | ErrSyntax | ErrRange | ErrNotExist
  | errors_New string
  | fmt_Errorf string "error list" "arg list"
  | NumError string string error

text \<open>\<^verbatim>\<open>errors.Is\<close>: the error itself or one it wraps, searched depth first.\<close>

fun errors_Is :: "error \<Rightarrow> error \<Rightarrow> bool" where
  "errors_Is (fmt_Errorf f ws as) target =
     (fmt_Errorf f ws as = target \<or> list_ex (\<lambda>w. errors_Is w target) ws)"
| "errors_Is (NumError fn num e) target = (NumError fn num e = target \<or> errors_Is e target)"
| "errors_Is e target = (e = target)"

text \<open>\<^verbatim>\<open>errors.Is(err, target)\<close> on a possibly nil \<^verbatim>\<open>err\<close>.\<close>

fun is_err :: "error option \<Rightarrow> error \<Rightarrow> bool" where
  "is_err None target = False"
| "is_err (Some e) target = errors_Is e target"

text \<open>A run-time panic: an index out of range, with the index and the length.\<close>

datatype panic = IndexOutOfRange nat nat | NilDereference

datatype 'a outcome = Returned 'a | Panicked panic

subsection \<open>Library functions used by the resolver\<close>

text \<open>\<^verbatim>\<open>strings.CutPrefix\<close>: the rest of the string and whether the prefix was there.\<close>

fun CutPrefix :: "string \<Rightarrow> string \<Rightarrow> string \<times> bool" where
  "CutPrefix s [] = (s, True)"
| "CutPrefix [] (p # ps) = ([], False)"
| "CutPrefix (c # cs) (p # ps) =
     (if c = p then (case CutPrefix cs ps of (r, True) \<Rightarrow> (r, True) | (r, False) \<Rightarrow> (c # cs, False))
      else (c # cs, False))"

definition is_digit :: "char \<Rightarrow> bool" where
  "is_digit c = (48 \<le> (of_char c :: nat) \<and> (of_char c :: nat) \<le> 57)"

definition digit_val :: "char \<Rightarrow> nat" where
  "digit_val c = of_char c - 48"

text \<open>
  \<^verbatim>\<open>strconv.ParseUint(s, 10, bitSize)\<close> after its check for the empty string: the loop over
  the bytes, left to right. A byte that is no decimal digit is a syntax error; a value
  beyond \<open>maxVal\<close> is a range error, returned as soon as it is reached.
\<close>

fun ParseUint_loop :: "nat \<Rightarrow> nat \<Rightarrow> string \<Rightarrow> error + nat" where
  "ParseUint_loop maxVal n [] = Inr n"
| "ParseUint_loop maxVal n (c # cs) =
     (if \<not> is_digit c then Inl ErrSyntax
      else let n1 = n * 10 + digit_val c in
        if n1 > maxVal then Inl ErrRange
        else ParseUint_loop maxVal n1 cs)"

definition ParseUint :: "string \<Rightarrow> nat \<Rightarrow> error + nat" where
  "ParseUint s bitSize = (if s = [] then Inl ErrSyntax else ParseUint_loop (2 ^ bitSize - 1) 0 s)"

text \<open>
  \<^verbatim>\<open>strconv.ParseInt(s, 10, bitSize)\<close>: an optional sign, then \<^verbatim>\<open>ParseUint\<close>, then the
  range of a signed \<open>bitSize\<close>-bit integer. The error is a \<^verbatim>\<open>NumError\<close> around
  \<^verbatim>\<open>ErrSyntax\<close> or \<^verbatim>\<open>ErrRange\<close>.
\<close>

definition ParseInt :: "string \<Rightarrow> nat \<Rightarrow> error + int" where
  "ParseInt s bitSize =
     (if s = [] then Inl (NumError ''ParseInt'' s ErrSyntax)
      else let neg = (hd s = CHR ''-'');
               s1 = (if hd s = CHR ''+'' \<or> hd s = CHR ''-'' then tl s else s);
               cutoff = (2::nat) ^ (bitSize - 1)
           in case ParseUint s1 bitSize of
                Inl e \<Rightarrow> Inl (NumError ''ParseInt'' s e)
              | Inr un \<Rightarrow>
                  if \<not> neg \<and> un \<ge> cutoff then Inl (NumError ''ParseInt'' s ErrRange)
                  else if neg \<and> un > cutoff then Inl (NumError ''ParseInt'' s ErrRange)
                  else Inr (if neg then - int un else int un))"

text \<open>
  An identifier \<^verbatim>\<open>ids.ID\<close> is an array of 32 bytes; \<^verbatim>\<open>ids.ToID\<close> accepts exactly the
  slices of that length.
\<close>

type_synonym ids_ID = string

definition ids_ToID :: "string \<Rightarrow> error + ids_ID" where
  "ids_ToID bytes =
     (if length bytes \<noteq> 32
      then Inl (fmt_Errorf ''%w: expected 32 bytes but got %d'' [ErrInvalidHashLen] [ArgNat (length bytes)])
      else Inr bytes)"

text \<open>
  Modelled from the spec: \<^verbatim>\<open>codec.AddressLen\<close>, the fixed length of an address: one
  tag byte followed by the 32 bytes of an Ed25519 public key.
\<close>

definition AddressLen :: nat where
  "AddressLen = 33"

text \<open>\<^verbatim>\<open>copy(dst, src)\<close>: the first \<open>min (len dst) (len src)\<close> bytes of \<open>dst\<close> are overwritten.\<close>

definition copy :: "'a list \<Rightarrow> 'a list \<Rightarrow> 'a list" where
  "copy dst src = take (length dst) src @ drop (length src) dst"

subsection \<open>External collaborators\<close>

text \<open>
  The key store, the program loader, the program interpreter, the file system, the
  clock and the text form of identifiers are outside this file. They are parameters:
  functions of the store \<open>'db\<close> that return the values the Go functions return, and the
  store after the call where the call can write to it. A returned \<^verbatim>\<open>error\<close> is
  \<open>None\<close> for \<^verbatim>\<open>nil\<close>.
\<close>

type_synonym PublicKey = string

record 'db env =
  GetPublicKey :: "'db \<Rightarrow> string \<Rightarrow> PublicKey \<times> bool \<times> error option"
  keyCreateFunc :: "'db \<Rightarrow> string \<Rightarrow> (PublicKey \<times> error option) \<times> 'db"
  programCreateFunc :: "'db \<Rightarrow> string \<Rightarrow> (ids_ID \<times> error option) \<times> 'db"
  programExecuteFunc :: "'db \<Rightarrow> ids_ID \<Rightarrow> Parameter list \<Rightarrow> string \<Rightarrow> uint64
     \<Rightarrow> (ids_ID \<times> string option list \<times> uint64 \<times> error option) \<times> 'db"
  Address :: "PublicKey \<Rightarrow> string"
  ID_String :: "ids_ID \<Rightarrow> string"
  ids_FromString :: "string \<Rightarrow> ids_ID \<times> error option"
  os_Stat :: "string \<Rightarrow> error option"
  os_ReadFile :: "string \<Rightarrow> string \<times> error option"
  unmarshalStep :: "string \<Rightarrow> Step option \<times> error option"
  time_Now_Unix :: "nat \<Rightarrow> int64"

subsection \<open>The command's state\<close>

text \<open>
  \<open>lastStep\<close> is the counter behind the pointer, \<open>file_name\<close> the string behind the pointer \<^verbatim>\<open>file\<close>
  that \<^verbatim>\<open>New\<close> always sets, \<open>planStep\<close> the pointer that \<^verbatim>\<open>Init\<close> tests for nil, and
  \<open>programIDStrMap\<close> the map from step index to identifier.
\<close>

record runCmd =
  lastStep :: go_int
  file_name :: string
  planStep :: "string option"
  step :: "Step option"
  programIDStrMap :: "go_int \<rightharpoonup> ids_ID"

subsection \<open>createCallParams\<close>

text \<open>
  The body of the loop of \<^verbatim>\<open>createCallParams\<close>: one iteration either returns an error
  or appends one parameter to \<open>cp\<close>; the result is that parameter.
\<close>

definition createCallParam :: "'db env \<Rightarrow> runCmd \<Rightarrow> 'db \<Rightarrow> Endpoint \<Rightarrow> Parameter \<Rightarrow> error + Parameter" where
  "createCallParam env c db endpoint param =
     (if Type param = String \<or> Type param = ID then
        let stepIDStr = Value param in
        case CutPrefix stepIDStr ''step_'' of
          (idString, True) \<Rightarrow>
            (case ParseInt idString 32 of
               Inl err \<Rightarrow> Inl err
             | Inr n \<Rightarrow>
                 (case programIDStrMap c (word_of_int n) of
                    None \<Rightarrow> Inl (fmt_Errorf ''failed to map to id: %s'' [] [ArgString stepIDStr])
                  | Some programID \<Rightarrow> Inr \<lparr>Type = Type param, Value = programID\<rparr>))
        | (idString, False) \<Rightarrow>
            (case ids_ToID (Value param) of
               Inr programID \<Rightarrow> Inr \<lparr>Type = Type param, Value = programID\<rparr>
             | Inl err \<Rightarrow>
                 let path = Value param in
                 if is_err (os_Stat env path) ErrNotExist
                 then Inl (errors_New ''this path does not exists'')
                 else Inr param)
      else if Type param = KeyEd25519 then
        let key = Value param in
        case GetPublicKey env db key of (pk, ok, err) \<Rightarrow>
          (case err of Some e \<Rightarrow> Inl e
           | None \<Rightarrow>
               if \<not> ok \<and> endpoint \<noteq> EndpointKey
               then Inl (fmt_Errorf ''%w: %s'' [ErrNamedKeyNotFound] [ArgString key])
               else
                 let key = (if ok
                            then let address = (replicate AddressLen (CHR 0x00))[0 := CHR 0x00]
                                 in take 1 address @ copy (drop 1 address) pk
                            else key)
                 in Inr \<lparr>Type = Type param, Value = key\<rparr>)
      else if Type param = Uint64 \<or> Type param = Bool then Inr param
      else Inl (fmt_Errorf ''%w: %s'' [ErrInvalidParamType] [ArgType (Type param)]))"

fun createCallParams_loop ::
  "'db env \<Rightarrow> runCmd \<Rightarrow> 'db \<Rightarrow> Endpoint \<Rightarrow> Parameter list \<Rightarrow> Parameter list \<Rightarrow> error + Parameter list" where
  "createCallParams_loop env c db endpoint cp [] = Inr cp"
| "createCallParams_loop env c db endpoint cp (param # params) =
     (case createCallParam env c db endpoint param of
        Inl err \<Rightarrow> Inl err
      | Inr p \<Rightarrow> createCallParams_loop env c db endpoint (cp @ [p]) params)"

definition createCallParams ::
  "'db env \<Rightarrow> runCmd \<Rightarrow> 'db \<Rightarrow> Parameter list option \<Rightarrow> Endpoint \<Rightarrow> error + Parameter list" where
  "createCallParams env c db params endpoint = createCallParams_loop env c db endpoint [] (elems params)"

subsection \<open>Response\<close>

text \<open>
  Modelled from the spec: the \<^verbatim>\<open>Response\<close> type and its setters are in another file of
  the package. A response has the step index and six optional parts: message,
  identifier (as text), result payload, balance, error and timestamp.
\<close>

record Response =
  StepID :: go_int
  Msg :: "string option"
  TxID :: "string option"
  Result :: "string option"
  Balance :: "uint64 option"
  Error :: "error option"
  Timestamp :: "int64 option"

definition newResponse :: "go_int \<Rightarrow> Response" where
  "newResponse i = \<lparr>StepID = i, Msg = None, TxID = None, Result = None, Balance = None,
     Error = None, Timestamp = None\<rparr>"

definition setError :: "error \<Rightarrow> Response \<Rightarrow> Response" where
  "setError e r = r\<lparr>Error := Some e\<rparr>"

definition setMsg :: "string \<Rightarrow> Response \<Rightarrow> Response" where
  "setMsg m r = r\<lparr>Msg := Some m\<rparr>"

definition setTxID :: "string \<Rightarrow> Response \<Rightarrow> Response" where
  "setTxID t r = r\<lparr>TxID := Some t\<rparr>"

definition setResponse :: "string \<Rightarrow> Response \<Rightarrow> Response" where
  "setResponse b r = r\<lparr>Result := Some b\<rparr>"

definition setBalance :: "uint64 \<Rightarrow> Response \<Rightarrow> Response" where
  "setBalance b r = r\<lparr>Balance := Some b\<rparr>"

definition setTimestamp :: "int64 \<Rightarrow> Response \<Rightarrow> Response" where
  "setTimestamp t r = r\<lparr>Timestamp := Some t\<rparr>"

definition getTxID :: "Response \<Rightarrow> string \<times> bool" where
  "getTxID r = (case TxID r of None \<Rightarrow> ([], False) | Some t \<Rightarrow> (t, True))"

subsection \<open>Init\<close>

text \<open>
  \<^verbatim>\<open>Init\<close> returns its error and leaves the parsed step in the command. The step is
  assigned before the error of \<^verbatim>\<open>unmarshalStep\<close> is tested.
\<close>

definition Init :: "'db env \<Rightarrow> runCmd \<Rightarrow> error option \<times> runCmd" where
  "Init env c =
     (let src = (if planStep c \<noteq> None \<and> length (the (planStep c)) > 0
                 then (the (planStep c), None)
                 else if length (file_name c) > 0
                 then os_ReadFile env (file_name c)
                 else ([], Some (errors_New ''please specify either a --plan or a --file flag'')))
      in case src of
           (bytes, Some err) \<Rightarrow> (Some err, c)
         | (bytes, None) \<Rightarrow>
             (case unmarshalStep env bytes of
                (st, Some err) \<Rightarrow> (Some err, c\<lparr>step := st\<rparr>)
              | (st, None) \<Rightarrow> (None, c\<lparr>step := st\<rparr>)))"

subsection \<open>Verify and verifyEndpoint\<close>

definition verifyEndpoint :: "go_int \<Rightarrow> Step \<Rightarrow> error option outcome" where
  "verifyEndpoint i stp =
     (case elems (Params stp) of
        [] \<Rightarrow> Panicked (IndexOutOfRange 0 0)
      | p0 # rest \<Rightarrow>
          let firstParamType = Type p0 in
          Returned
            (case Endpoint stp of
               EndpointKey \<Rightarrow>
                 if firstParamType \<noteq> KeyEd25519 \<and> firstParamType \<noteq> KeySecp256k1
                 then Some (fmt_Errorf ''%w %d %w: expected ed25519 or secp256k1''
                              [ErrInvalidStep, ErrInvalidParamType] [ArgInt i])
                 else None
             | EndpointReadOnly \<Rightarrow>
                 if firstParamType \<noteq> ID
                 then Some (fmt_Errorf ''%w %d %w: %w''
                              [ErrInvalidStep, ErrInvalidParamType, ErrFirstParamRequiredID] [ArgInt i])
                 else None
             | EndpointExecute \<Rightarrow>
                 if Method stp = ProgramCreate then
                   if Type p0 \<noteq> String
                   then Some (fmt_Errorf ''%w %d %w: %w''
                                [ErrInvalidStep, ErrInvalidParamType, ErrFirstParamRequiredString] [ArgInt i])
                   else None
                 else
                   if Type p0 \<noteq> ID
                   then Some (fmt_Errorf ''%w %d %w: %w''
                                [ErrInvalidStep, ErrInvalidParamType, ErrFirstParamRequiredID] [ArgInt i])
                   else None
             | EndpointOther e \<Rightarrow>
                 Some (fmt_Errorf ''%w: %s'' [ErrInvalidEndpoint] [ArgEndpoint (Endpoint stp)])))"

definition Verify :: "runCmd \<Rightarrow> error option outcome" where
  "Verify c =
     (case step c of
        None \<Rightarrow> Returned (Some (fmt_Errorf ''%w: %s'' [ErrInvalidPlan] [ArgString ''no steps found'']))
      | Some stp \<Rightarrow>
          if Params stp = None
          then Returned (Some (fmt_Errorf ''%w: %s'' [ErrInvalidStep] [ArgString ''no params found'']))
          else verifyEndpoint (lastStep c) stp)"

subsection \<open>runStepFunc\<close>

text \<open>\<^verbatim>\<open>math.MaxUint64\<close>.\<close>

definition MaxUint64 :: uint64 where
  "MaxUint64 = 18446744073709551615"

text \<open>
  The switch of \<^verbatim>\<open>runStepFunc\<close>: the returned error, the response and the store after
  the call. \<^verbatim>\<open>params[0]\<close> and \<^verbatim>\<open>response[0]\<close> panic on an empty slice.
\<close>

definition runStepFunc_switch ::
  "'db env \<Rightarrow> 'db \<Rightarrow> Endpoint \<Rightarrow> uint64 \<Rightarrow> string \<Rightarrow> Parameter list \<Rightarrow> Response
     \<Rightarrow> (error option \<times> Response \<times> 'db) outcome" where
  "runStepFunc_switch env db endpoint maxUnits method params resp =
     (case endpoint of
        EndpointKey \<Rightarrow>
          (case params of
             [] \<Rightarrow> Panicked (IndexOutOfRange 0 0)
           | p0 # rest \<Rightarrow>
               let keyName = Value p0 in
               (case keyCreateFunc env db keyName of ((key, err), db') \<Rightarrow>
                  if \<not> is_err err ErrDuplicateKeyName \<and> err \<noteq> None
                  then Returned (err, resp, db')
                  else Returned (None, setMsg (''created named key with address '' @ Address env key) resp, db')))
      | EndpointExecute \<Rightarrow>
          (case params of
             [] \<Rightarrow> Panicked (IndexOutOfRange 0 0)
           | p0 # rest \<Rightarrow>
               if method = ProgramCreate then
                 let programPath = Value p0 in
                 (case programCreateFunc env db programPath of ((id', err), db') \<Rightarrow>
                    if err \<noteq> None then Returned (err, resp, db')
                    else Returned (None, setTimestamp (time_Now_Unix env 1) (setTxID (ID_String env id') resp), db'))
               else
                 (case ids_ToID (Value p0) of
                   Inl err \<Rightarrow> Returned (Some err, resp, db)
                 | Inr id0 \<Rightarrow>
                     (case programExecuteFunc env db id0 rest method maxUnits of
                        ((id', response, balance, err), db') \<Rightarrow>
                          if err \<noteq> None then Returned (err, resp, db')
                          else if length response > 1
                          then Returned (Some (errors_New ''multi response not supported''), resp, db')
                          else
                            (case response of
                               [] \<Rightarrow> Panicked (IndexOutOfRange 0 0)
                             | res # others \<Rightarrow>
                                 let resp1 = (case res of None \<Rightarrow> resp | Some r \<Rightarrow> setResponse r resp)
                                 in Returned (None, setBalance balance (setTxID (ID_String env id') resp1), db')))))
      | EndpointReadOnly \<Rightarrow>
          (case params of
             [] \<Rightarrow> Panicked (IndexOutOfRange 0 0)
           | p0 # rest \<Rightarrow>
               (case ids_ToID (Value p0) of
                 Inl err \<Rightarrow> Returned (Some err, resp, db)
               | Inr id0 \<Rightarrow>
                   (case programExecuteFunc env db id0 rest method MaxUint64 of
                      ((id', response, balance, err), db') \<Rightarrow>
                        if err \<noteq> None then Returned (err, resp, db')
                        else if length response > 1
                        then Returned (Some (errors_New ''multi response not supported''), resp, db')
                        else
                          (case response of
                             [] \<Rightarrow> Panicked (IndexOutOfRange 0 0)
                           | res # others \<Rightarrow>
                               let resp1 = (case res of None \<Rightarrow> resp | Some r \<Rightarrow> setResponse r resp)
                               in Returned (None, resp1, db')))))
      | EndpointOther e \<Rightarrow>
          Returned (Some (fmt_Errorf ''%w: %s'' [ErrInvalidEndpoint] [ArgEndpoint endpoint]), resp, db))"

text \<open>
  \<^verbatim>\<open>runStepFunc\<close>: the deferred \<^verbatim>\<open>setTimestamp\<close> takes the clock when the function is
  entered (reading 0) and stamps the response when the function returns.
\<close>

definition runStepFunc ::
  "'db env \<Rightarrow> 'db \<Rightarrow> Endpoint \<Rightarrow> uint64 \<Rightarrow> string \<Rightarrow> Parameter list \<Rightarrow> Response
     \<Rightarrow> (error option \<times> Response \<times> 'db) outcome" where
  "runStepFunc env db endpoint maxUnits method params resp =
     (let t = time_Now_Unix env 0 in
      case runStepFunc_switch env db endpoint maxUnits method params resp of
        Panicked p \<Rightarrow> Panicked p
      | Returned (err, resp', db') \<Rightarrow> Returned (err, setTimestamp t resp', db'))"

subsection \<open>RunStep and Run\<close>

text \<open>
  \<^verbatim>\<open>RunStep\<close> returns the response pointer (\<open>None\<close> for nil) and the error, with the
  command and the store as they are left.
\<close>

definition RunStep ::
  "'db env \<Rightarrow> runCmd \<Rightarrow> 'db \<Rightarrow> ((Response option \<times> error option) \<times> runCmd \<times> 'db) outcome" where
  "RunStep env c db =
     (let index = lastStep c in
      case step c of
        None \<Rightarrow> Panicked NilDereference
      | Some stp \<Rightarrow>
          (case createCallParams env c db (Params stp) (Endpoint stp) of
             Inl err \<Rightarrow> Returned ((Some (newResponse 0), Some err), c, db)
           | Inr params \<Rightarrow>
               let resp = newResponse index in
               (case runStepFunc env db (Endpoint stp) (MaxUnits stp) (Method stp) params resp of
                 Panicked p \<Rightarrow> Panicked p
               | Returned (err, resp, db') \<Rightarrow>
                   let resp = (case err of None \<Rightarrow> resp | Some e \<Rightarrow> setError e resp) in
                   (case getTxID resp of
                     (txID, True) \<Rightarrow>
                       (case ids_FromString env txID of
                          (id', Some e) \<Rightarrow> Returned ((None, Some e), c, db')
                        | (id', None) \<Rightarrow>
                            Returned ((Some resp, None),
                              c\<lparr>programIDStrMap := (programIDStrMap c)(index \<mapsto> id'), lastStep := index + 1\<rparr>,
                              db'))
                   | (txID, False) \<Rightarrow> Returned ((Some resp, None), c\<lparr>lastStep := index + 1\<rparr>, db')))))"

definition Run ::
  "'db env \<Rightarrow> runCmd \<Rightarrow> 'db \<Rightarrow> ((Response option \<times> error option) \<times> runCmd \<times> 'db) outcome" where
  "Run env c db =
     (case Init env c of
        (Some err, c1) \<Rightarrow> Returned ((Some (newResponse 0), Some err), c1, db)
      | (None, c1) \<Rightarrow>
          (case Verify c1 of
             Panicked p \<Rightarrow> Panicked p
           | Returned (Some err) \<Rightarrow> Returned ((Some (newResponse 0), Some err), c1, db)
           | Returned None \<Rightarrow>
               (case RunStep env c1 db of
                  Panicked p \<Rightarrow> Panicked p
                | Returned ((resp, Some err), c2, db') \<Rightarrow> Returned ((Some (newResponse 0), Some err), c2, db')
                | Returned ((resp, None), c2, db') \<Rightarrow> Returned ((resp, None), c2, db'))))"

subsection \<open>Decimal numerals\<close>

text \<open>
  What the claims call a decimal integer: a non-empty string of decimal digits, and the
  number it denotes.
\<close>

definition is_decimal :: "string \<Rightarrow> bool" where
  "is_decimal s = (s \<noteq> [] \<and> list_all is_digit s)"

definition decimal_value :: "string \<Rightarrow> nat" where
  "decimal_value s = foldl (\<lambda>n c. n * 10 + digit_val c) 0 s"

subsection \<open>An example environment\<close>

text \<open>
  Modelled from the spec: the key store (\<^verbatim>\<open>keyCreateFunc\<close>, \<^verbatim>\<open>storage.GetPublicKey\<close>),
  the program loader and the program interpreter are outside this file. This
  environment follows their contracts in section 6 of the spec, for the concrete runs
  below. The store is the list of named keys. Creating a key under a new name stores a
  fresh public key (\<open>sim_new_key n\<close> when \<open>n\<close> keys are stored); creating one under a
  stored name returns the stored key with an error that wraps
  \<^verbatim>\<open>ErrDuplicateKeyName\<close>. The loader returns the identifier \<open>sim_program_id\<close>; the interpreter
  returns the identifier \<open>sim_tx_id\<close>, the given result payloads and, as balance, the budget it was given. An
  identifier's text form is its bytes. The only file is \<^verbatim>\<open>plan.json\<close>, the only
  existing path besides it \<^verbatim>\<open>./mod.bin\<close>, and the only text that parses is that file's.
\<close>

type_synonym sim_db = "(string \<times> PublicKey) list"

definition sim_step :: Step where
  "sim_step = \<lparr>Endpoint = EndpointKey, Method = ''create'', MaxUnits = 0,
     Params = Some [\<lparr>Type = KeyEd25519, Value = ''alice''\<rparr>]\<rparr>"

fun sim_new_key :: "nat \<Rightarrow> PublicKey" where
  "sim_new_key 0 = ''AAAAAAAAAAAAAAAAAAAAAAAAAAAAAAAA''"
| "sim_new_key (Suc n) = CHR ''B'' # take 31 (sim_new_key n)"

definition sim_program_id :: ids_ID where
  "sim_program_id = ''pppppppppppppppppppppppppppppppp''"

definition sim_tx_id :: ids_ID where
  "sim_tx_id = ''tttttttttttttttttttttttttttttttt''"

definition sim_env :: "string option list \<Rightarrow> sim_db env" where
  "sim_env results = \<lparr>
     GetPublicKey = (\<lambda>db name. case map_of db name of
                        None \<Rightarrow> (replicate 32 (CHR 0x00), False, None)
                      | Some pk \<Rightarrow> (pk, True, None)),
     keyCreateFunc = (\<lambda>db name. case map_of db name of
                        Some pk \<Rightarrow> ((pk, Some (fmt_Errorf ''%w: %s'' [ErrDuplicateKeyName] [ArgString name])), db)
                      | None \<Rightarrow> ((sim_new_key (length db), None),
                                 db @ [(name, sim_new_key (length db))])),
     programCreateFunc = (\<lambda>db path. ((sim_program_id, None), db)),
     programExecuteFunc = (\<lambda>db id0 params method units. ((sim_tx_id, results, units, None), db)),
     Address = (\<lambda>pk. pk),
     ID_String = (\<lambda>i. i),
     ids_FromString = (\<lambda>s. if length s = 32 then (s, None)
                            else (replicate 32 (CHR 0x00), Some ErrInvalidHashLen)),
     os_Stat = (\<lambda>path. if path = ''./mod.bin'' \<or> path = ''plan.json'' then None else Some ErrNotExist),
     os_ReadFile = (\<lambda>path. if path = ''plan.json'' then (''{step}'', None) else ([], Some ErrNotExist)),
     unmarshalStep = (\<lambda>bytes. if bytes = ''{step}'' then (Some sim_step, None)
                             else (None, Some (errors_New ''invalid config format''))),
     time_Now_Unix = (\<lambda>n. of_nat n)\<rparr>"

text \<open>A command at step \<open>i\<close> holding the step \<open>stp\<close>, with the ledger \<open>m\<close>.\<close>

definition sim_cmd :: "go_int \<Rightarrow> Step \<Rightarrow> (go_int \<rightharpoonup> ids_ID) \<Rightarrow> runCmd" where
  "sim_cmd i stp m = \<lparr>lastStep = i, file_name = [], planStep = None, step = Some stp, programIDStrMap = m\<rparr>"

section \<open>Properties\<close>

subsection \<open>The resolver's loop\<close>

text \<open>The loop over a concatenation runs over the first part, then over the second.\<close>

lemma loop_append:
  "createCallParams_loop env c db ep cp (xs @ ys) =
     (case createCallParams_loop env c db ep cp xs of
        Inl e \<Rightarrow> Inl e
      | Inr cp' \<Rightarrow> createCallParams_loop env c db ep cp' ys)"
  by (induction xs arbitrary: cp) (auto split: sum.splits)

text \<open>A successful loop keeps \<open>cp\<close> and appends one parameter per input parameter.\<close>

lemma loop_result:
  "createCallParams_loop env c db ep cp xs = Inr out \<Longrightarrow>
     (\<exists>r. out = cp @ r \<and> length r = length xs)"
proof (induction xs arbitrary: cp)
  case Nil
  then show ?case by simp
next
  case (Cons x xs)
  from Cons.prems obtain p where p: "createCallParam env c db ep x = Inr p"
    and rest: "createCallParams_loop env c db ep (cp @ [p]) xs = Inr out"
    by (auto split: sum.splits)
  from Cons.IH[OF rest] obtain r where "out = (cp @ [p]) @ r" "length r = length xs" by blast
  then have "out = cp @ (p # r) \<and> length (p # r) = length (x # xs)" by simp
  then show ?case by blast
qed

text \<open>A parameter after a prefix that resolves: its iteration, then the rest of the loop.\<close>

lemma resolve_at:
  assumes "createCallParams env c db (Some pre) ep = Inr cpre"
  shows "createCallParams env c db (Some (pre @ param # post)) ep =
      (case createCallParam env c db ep param of
         Inl e \<Rightarrow> Inl e
       | Inr p \<Rightarrow> createCallParams_loop env c db ep (cpre @ [p]) post)"
  using assms by (simp add: createCallParams_def loop_append)

lemma resolved_position:
  assumes pre: "createCallParams env c db (Some pre) ep = Inr cpre"
    and p: "createCallParam env c db ep param = Inr p"
    and out: "createCallParams env c db (Some (pre @ param # post)) ep = Inr out"
  shows "length out = length (pre @ param # post) \<and> out ! length pre = p"
proof -
  have len: "length cpre = length pre"
    using pre loop_result[of env c db ep "[]" pre cpre] by (simp add: createCallParams_def)
  have "length out = length (pre @ param # post)"
    using out loop_result[of env c db ep "[]" "pre @ param # post" out] by (simp add: createCallParams_def)
  moreover have "createCallParams_loop env c db ep (cpre @ [p]) post = Inr out"
    using out by (simp add: resolve_at[OF pre] p)
  from loop_result[OF this] obtain r where "out = (cpre @ [p]) @ r" by blast
  then have "out ! length pre = p" using len by (simp add: nth_append)
  ultimately show ?thesis by simp
qed

text \<open>The loop fails as soon as one parameter of the list does.\<close>

lemma failing_member:
  assumes "p \<in> set ps" and "\<exists>e. createCallParam env c db ep p = Inl e"
  shows "\<exists>e. createCallParams_loop env c db ep cp ps = Inl e"
  using assms
proof (induction ps arbitrary: cp)
  case Nil
  then show ?case by simp
next
  case (Cons a ps)
  show ?case
  proof (cases "createCallParam env c db ep a")
    case (Inl e)
    then show ?thesis by simp
  next
    case (Inr q)
    with Cons.prems have "p \<in> set ps" by auto
    from Cons.IH[OF this Cons.prems(2)] Inr show ?thesis by simp
  qed
qed

lemma secp_unresolved:
  "Type p = KeySecp256k1 \<Longrightarrow>
     createCallParam env c db ep p = Inl (fmt_Errorf ''%w: %s'' [ErrInvalidParamType] [ArgType KeySecp256k1])"
  by (simp add: createCallParam_def)

text \<open>The address built from a 32-byte key: the tag byte, then the key.\<close>

lemma address_bytes:
  assumes "length pk = 32"
  shows "take 1 ((replicate AddressLen z)[0 := z]) @ copy (drop 1 ((replicate AddressLen z)[0 := z])) pk = z # pk"
proof -
  have r: "replicate AddressLen z = z # replicate 32 z"
    by (simp add: AddressLen_def numeral_eq_Suc)
  show ?thesis using assms by (simp add: r copy_def)
qed

subsection \<open>Parsing decimal numerals\<close>

lemma foldl_dec_mono: "n \<le> foldl (\<lambda>n c. n * 10 + digit_val c) n s"
proof (induction s arbitrary: n)
  case Nil show ?case by simp
next
  case (Cons a s)
  have "n \<le> n * 10 + digit_val a" by simp
  also have "\<dots> \<le> foldl (\<lambda>n c. n * 10 + digit_val c) (n * 10 + digit_val a) s" by (rule Cons.IH)
  finally show ?case by simp
qed

lemma ParseUint_loop_decimal:
  "list_all is_digit s \<Longrightarrow> foldl (\<lambda>n c. n * 10 + digit_val c) n s \<le> maxVal \<Longrightarrow>
     ParseUint_loop maxVal n s = Inr (foldl (\<lambda>n c. n * 10 + digit_val c) n s)"
proof (induction s arbitrary: n)
  case Nil show ?case by simp
next
  case (Cons a s)
  have "n * 10 + digit_val a \<le> foldl (\<lambda>n c. n * 10 + digit_val c) (n * 10 + digit_val a) s"
    by (rule foldl_dec_mono)
  with Cons.prems have le: "n * 10 + digit_val a \<le> maxVal" by simp
  from Cons.prems have d: "is_digit a" "list_all is_digit s" by simp_all
  show ?case using Cons.IH[OF d(2), of "n * 10 + digit_val a"] Cons.prems(2) le d(1)
    by (simp add: Let_def)
qed

lemma ParseInt_decimal:
  assumes "is_decimal s" "decimal_value s < 2 ^ 31"
  shows "ParseInt s 32 = Inr (int (decimal_value s))"
proof -
  from assms(1) obtain a r where s: "s = a # r" and da: "is_digit a" and all: "list_all is_digit s"
    by (cases s) (auto simp: is_decimal_def)
  from da have nosign: "a \<noteq> CHR ''+''" "a \<noteq> CHR ''-''"
    by (auto simp: is_digit_def)
  have "decimal_value s \<le> 2 ^ 32 - 1" using assms(2) by simp
  then have "ParseUint s 32 = Inr (decimal_value s)"
    using ParseUint_loop_decimal[OF all, of 0 "2 ^ 32 - 1"] s
    by (simp add: ParseUint_def decimal_value_def)
  then show ?thesis using nosign s assms(2)
    by (simp add: ParseInt_def Let_def)
qed

text \<open>
  On a string of digits the loop of \<^verbatim>\<open>ParseUint\<close> returns the number it denotes if that
  is at most \<open>maxVal\<close>, and a range error otherwise; so \<^verbatim>\<open>ParseInt\<close> with bit size 32
  returns a range error for every numeral from \<open>2^31\<close> on.
\<close>

lemma ParseUint_loop_digits:
  "list_all is_digit s \<Longrightarrow> n \<le> maxVal \<Longrightarrow>
     ParseUint_loop maxVal n s =
       (if foldl (\<lambda>n c. n * 10 + digit_val c) n s \<le> maxVal
        then Inr (foldl (\<lambda>n c. n * 10 + digit_val c) n s) else Inl ErrRange)"
proof (induction s arbitrary: n)
  case Nil
  then show ?case by simp
next
  case (Cons a s)
  from Cons.prems have d: "is_digit a" "list_all is_digit s" by simp_all
  show ?case
  proof (cases "n * 10 + digit_val a \<le> maxVal")
    case True
    from Cons.IH[OF d(2) True] d(1) True show ?thesis by (simp add: Let_def)
  next
    case False
    have "n * 10 + digit_val a \<le> foldl (\<lambda>n c. n * 10 + digit_val c) (n * 10 + digit_val a) s"
      by (rule foldl_dec_mono)
    with False have "\<not> foldl (\<lambda>n c. n * 10 + digit_val c) (n * 10 + digit_val a) s \<le> maxVal"
      by simp
    with False d(1) show ?thesis by (simp add: Let_def)
  qed
qed

lemma ParseInt_decimal_range:
  assumes "is_decimal s" "2 ^ 31 \<le> decimal_value s"
  shows "ParseInt s 32 = Inl (NumError ''ParseInt'' s ErrRange)"
proof -
  from assms(1) obtain a r where s: "s = a # r" and da: "is_digit a" and all: "list_all is_digit s"
    by (cases s) (auto simp: is_decimal_def)
  from da have nosign: "a \<noteq> CHR ''+''" "a \<noteq> CHR ''-''"
    by (auto simp: is_digit_def)
  have u: "ParseUint s 32 =
      (if decimal_value s \<le> 2 ^ 32 - 1 then Inr (decimal_value s) else Inl ErrRange)"
    using ParseUint_loop_digits[OF all, of 0 "2 ^ 32 - 1"] s
    by (simp add: ParseUint_def decimal_value_def)
  show ?thesis
  proof (cases "decimal_value s \<le> 2 ^ 32 - 1")
    case True
    with u have "ParseUint s 32 = Inr (decimal_value s)" by simp
    then show ?thesis using nosign s assms(2) by (simp add: ParseInt_def Let_def)
  next
    case False
    with u have "ParseUint s 32 = Inl ErrRange" by simp
    then show ?thesis using nosign s by (simp add: ParseInt_def Let_def)
  qed
qed

subsection \<open>Step references (C1)\<close>

text \<open>
  Claim C1, as amended. A parameter of type String or ID whose value is \<^verbatim>\<open>step_\<close>
  followed by a decimal numeral \<open>N\<close>, at any position of the list whose earlier
  parameters resolve. For \<open>N\<close> below \<open>2^31\<close> (what \<^verbatim>\<open>ParseInt\<close> with bit size 32
  accepts): if the ledger has an identifier at index \<open>N\<close>, the loop goes on with
  exactly that identifier appended under the parameter's type, so a resolved list has
  it at the parameter's position; if the ledger has no entry at \<open>N\<close>,
  \<^verbatim>\<open>createCallParams\<close> returns the error \<^verbatim>\<open>failed to map to id\<close> and no list. For every
  \<open>N\<close> from \<open>2^31\<close> on, \<^verbatim>\<open>createCallParams\<close> returns the range error of \<^verbatim>\<open>ParseInt\<close> and
  no list, whatever the ledger holds.
\<close>

theorem C1_step_reference:
  assumes ty: "Type param = String \<or> Type param = ID"
    and v: "Value param = ''step_'' @ s"
    and dec: "is_decimal s"
    and pre: "createCallParams env c db (Some pre) ep = Inr cpre"
  shows "(decimal_value s < 2 ^ 31 \<and> programIDStrMap c (of_nat (decimal_value s)) = Some pid \<longrightarrow>
            createCallParams env c db (Some (pre @ param # post)) ep =
              createCallParams_loop env c db ep (cpre @ [\<lparr>Type = Type param, Value = pid\<rparr>]) post
          \<and> (\<forall>out. createCallParams env c db (Some (pre @ param # post)) ep = Inr out \<longrightarrow>
                 length out = length (pre @ param # post) \<and>
                 out ! length pre = \<lparr>Type = Type param, Value = pid\<rparr>))
       \<and> (decimal_value s < 2 ^ 31 \<and> programIDStrMap c (of_nat (decimal_value s)) = None \<longrightarrow>
            createCallParams env c db (Some (pre @ param # post)) ep =
              Inl (fmt_Errorf ''failed to map to id: %s'' [] [ArgString (Value param)]))
       \<and> (2 ^ 31 \<le> decimal_value s \<longrightarrow>
            createCallParams env c db (Some (pre @ param # post)) ep =
              Inl (NumError ''ParseInt'' s ErrRange))"
proof -
  have body: "createCallParam env c db ep param =
      (case programIDStrMap c (of_nat (decimal_value s)) of
         None \<Rightarrow> Inl (fmt_Errorf ''failed to map to id: %s'' [] [ArgString (Value param)])
       | Some programID \<Rightarrow> Inr \<lparr>Type = Type param, Value = programID\<rparr>)"
    if rng: "decimal_value s < 2 ^ 31"
  proof -
    have "ParseInt s 32 = Inr (int (decimal_value s))"
      by (rule ParseInt_decimal[OF dec rng])
    with ty show ?thesis
      by (auto simp: createCallParam_def v Let_def split: option.split)
  qed
  have body_range: "createCallParam env c db ep param = Inl (NumError ''ParseInt'' s ErrRange)"
    if rng: "2 ^ 31 \<le> decimal_value s"
  proof -
    have "ParseInt s 32 = Inl (NumError ''ParseInt'' s ErrRange)"
      by (rule ParseInt_decimal_range[OF dec rng])
    with ty show ?thesis
      by (auto simp: createCallParam_def v Let_def)
  qed
  note split = resolve_at[OF pre, of param post]
  show ?thesis
  proof (intro conjI impI allI)
    assume "decimal_value s < 2 ^ 31 \<and> programIDStrMap c (of_nat (decimal_value s)) = Some pid"
    then show "createCallParams env c db (Some (pre @ param # post)) ep =
        createCallParams_loop env c db ep (cpre @ [\<lparr>Type = Type param, Value = pid\<rparr>]) post"
      by (simp add: split body)
  next
    fix out
    assume m: "decimal_value s < 2 ^ 31 \<and> programIDStrMap c (of_nat (decimal_value s)) = Some pid"
      and o: "createCallParams env c db (Some (pre @ param # post)) ep = Inr out"
    from m have "createCallParam env c db ep param = Inr \<lparr>Type = Type param, Value = pid\<rparr>"
      by (simp add: body)
    from resolved_position[OF pre this o]
    show "length out = length (pre @ param # post)"
      and "out ! length pre = \<lparr>Type = Type param, Value = pid\<rparr>" by simp_all
  next
    assume "decimal_value s < 2 ^ 31 \<and> programIDStrMap c (of_nat (decimal_value s)) = None"
    then show "createCallParams env c db (Some (pre @ param # post)) ep =
              Inl (fmt_Errorf ''failed to map to id: %s'' [] [ArgString (Value param)])"
      by (simp add: split body)
  next
    assume "2 ^ 31 \<le> decimal_value s"
    then show "createCallParams env c db (Some (pre @ param # post)) ep =
        Inl (NumError ''ParseInt'' s ErrRange)"
      by (simp add: split body_range)
  qed
qed

text \<open>
  Claim C1, witness: \<^verbatim>\<open>step_1\<close> against a ledger with an entry at 1 and against an
  empty ledger, and \<^verbatim>\<open>step_4294967297\<close> (which is \<open>2^32 + 1\<close>) against a ledger with an
  entry at 1.
\<close>

theorem C1_step_reference_witness:
  "is_decimal ''1'' \<and> decimal_value ''1'' < 2 ^ 31 \<and>
   createCallParams (sim_env []) (sim_cmd 2 sim_step [1 \<mapsto> sim_program_id]) []
       (Some [\<lparr>Type = ID, Value = ''step_1''\<rparr>, \<lparr>Type = Uint64, Value = ''100''\<rparr>]) EndpointExecute =
     Inr [\<lparr>Type = ID, Value = sim_program_id\<rparr>, \<lparr>Type = Uint64, Value = ''100''\<rparr>] \<and>
   createCallParams (sim_env []) (sim_cmd 2 sim_step Map.empty) []
       (Some [\<lparr>Type = ID, Value = ''step_1''\<rparr>, \<lparr>Type = Uint64, Value = ''100''\<rparr>]) EndpointExecute =
     Inl (fmt_Errorf ''failed to map to id: %s'' [] [ArgString ''step_1'']) \<and>
   is_decimal ''4294967297'' \<and> 2 ^ 31 \<le> decimal_value ''4294967297'' \<and>
   createCallParams (sim_env []) (sim_cmd 2 sim_step [1 \<mapsto> sim_program_id]) []
       (Some [\<lparr>Type = ID, Value = ''step_4294967297''\<rparr>, \<lparr>Type = Uint64, Value = ''100''\<rparr>]) EndpointExecute =
     Inl (NumError ''ParseInt'' ''4294967297'' ErrRange)"
proof -
  have d: "is_decimal ''1''" "decimal_value ''1'' < 2 ^ 31" "decimal_value ''1'' = 1"
    "is_decimal ''4294967297''" "2 ^ 31 \<le> decimal_value ''4294967297''"
    by (simp_all add: is_decimal_def is_digit_def decimal_value_def digit_val_def)
  have p: "createCallParams (sim_env []) c [] (Some []) EndpointExecute = Inr []" for c
    by (simp add: createCallParams_def)
  note t = C1_step_reference[where param = "\<lparr>Type = ID, Value = ''step_1''\<rparr>" and s = "''1''"
      and env = "sim_env []" and db = "[]" and pre = "[]" and cpre = "[]" and ep = EndpointExecute
      and post = "[\<lparr>Type = Uint64, Value = ''100''\<rparr>]", OF _ _ d(1) p]
  note big = C1_step_reference[where param = "\<lparr>Type = ID, Value = ''step_4294967297''\<rparr>"
      and s = "''4294967297''" and c = "sim_cmd 2 sim_step [1 \<mapsto> sim_program_id]"
      and env = "sim_env []" and db = "[]" and pre = "[]" and cpre = "[]" and ep = EndpointExecute
      and post = "[\<lparr>Type = Uint64, Value = ''100''\<rparr>]", OF _ _ d(4) p]
  have r1: "createCallParams (sim_env []) (sim_cmd 2 sim_step [1 \<mapsto> sim_program_id]) []
       (Some [\<lparr>Type = ID, Value = ''step_1''\<rparr>, \<lparr>Type = Uint64, Value = ''100''\<rparr>]) EndpointExecute =
     Inr [\<lparr>Type = ID, Value = sim_program_id\<rparr>, \<lparr>Type = Uint64, Value = ''100''\<rparr>]"
    using t[where c = "sim_cmd 2 sim_step [1 \<mapsto> sim_program_id]" and pid = sim_program_id] d(2,3)
    by (simp add: createCallParam_def sim_cmd_def)
  have r2: "createCallParams (sim_env []) (sim_cmd 2 sim_step Map.empty) []
       (Some [\<lparr>Type = ID, Value = ''step_1''\<rparr>, \<lparr>Type = Uint64, Value = ''100''\<rparr>]) EndpointExecute =
     Inl (fmt_Errorf ''failed to map to id: %s'' [] [ArgString ''step_1''])"
    using t[where c = "sim_cmd 2 sim_step Map.empty" and pid = "[]"] d(2,3)
    by (simp add: sim_cmd_def)
  have r3: "createCallParams (sim_env []) (sim_cmd 2 sim_step [1 \<mapsto> sim_program_id]) []
       (Some [\<lparr>Type = ID, Value = ''step_4294967297''\<rparr>, \<lparr>Type = Uint64, Value = ''100''\<rparr>]) EndpointExecute =
     Inl (NumError ''ParseInt'' ''4294967297'' ErrRange)"
    using big d(5) by simp
  from d r1 r2 r3 show ?thesis by simp
qed

text \<open>
  Claim C1 as stated fails for a numeral outside the 32-bit range: for
  \<^verbatim>\<open>step_2147483648\<close> and a ledger with no entry there, the error is the range error of
  \<^verbatim>\<open>strconv.ParseInt\<close>, not \<^verbatim>\<open>failed to map to id\<close>.
\<close>

theorem C1_out_of_range_counterexample:
  "is_decimal ''2147483648'' \<and>
   decimal_value ''2147483648'' = 2147483648 \<and>
   programIDStrMap (sim_cmd 0 sim_step Map.empty) (of_nat (decimal_value ''2147483648'')) = None \<and>
   createCallParams (sim_env []) (sim_cmd 0 sim_step Map.empty) []
       (Some [\<lparr>Type = ID, Value = ''step_2147483648''\<rparr>]) EndpointExecute =
     Inl (NumError ''ParseInt'' ''2147483648'' ErrRange) \<and>
   createCallParams (sim_env []) (sim_cmd 0 sim_step Map.empty) []
       (Some [\<lparr>Type = ID, Value = ''step_2147483648''\<rparr>]) EndpointExecute \<noteq>
     Inl (fmt_Errorf ''failed to map to id: %s'' [] [ArgString ''step_2147483648''])"
  by (simp add: is_decimal_def is_digit_def decimal_value_def digit_val_def sim_cmd_def
      createCallParams_def createCallParam_def ParseInt_def ParseUint_def Let_def)

subsection \<open>Named keys (C6)\<close>

text \<open>
  Claim C6. A parameter of type KeyEd25519 holding a key name, at any position of the
  list whose earlier parameters resolve. If the key store has a (32-byte) public key
  for the name, the loop goes on with the address appended: \<open>AddressLen\<close> bytes, the tag
  byte 0 followed by the public key, so a resolved list has it at the parameter's
  position. If no key is stored and the endpoint is not the Key endpoint,
  \<^verbatim>\<open>createCallParams\<close> fails with an error wrapping \<^verbatim>\<open>ErrNamedKeyNotFound\<close>. If no key is
  stored and the endpoint is the Key endpoint, the parameter is appended unchanged.
\<close>

theorem C6_named_key:
  assumes ty: "Type param = KeyEd25519"
    and pre: "createCallParams env c db (Some pre) ep = Inr cpre"
  shows "(GetPublicKey env db (Value param) = (pk, True, None) \<and> length pk = 32 \<longrightarrow>
            createCallParams env c db (Some (pre @ param # post)) ep =
              createCallParams_loop env c db ep (cpre @ [\<lparr>Type = KeyEd25519, Value = CHR 0x00 # pk\<rparr>]) post
          \<and> length (CHR 0x00 # pk) = AddressLen
          \<and> (\<forall>out. createCallParams env c db (Some (pre @ param # post)) ep = Inr out \<longrightarrow>
                 out ! length pre = \<lparr>Type = KeyEd25519, Value = CHR 0x00 # pk\<rparr>))
       \<and> (GetPublicKey env db (Value param) = (pk, False, None) \<and> ep \<noteq> EndpointKey \<longrightarrow>
            createCallParams env c db (Some (pre @ param # post)) ep =
              Inl (fmt_Errorf ''%w: %s'' [ErrNamedKeyNotFound] [ArgString (Value param)]))
       \<and> (GetPublicKey env db (Value param) = (pk, False, None) \<and> ep = EndpointKey \<longrightarrow>
            createCallParams env c db (Some (pre @ param # post)) ep =
              createCallParams_loop env c db ep (cpre @ [param]) post
          \<and> (\<forall>out. createCallParams env c db (Some (pre @ param # post)) ep = Inr out \<longrightarrow>
                 out ! length pre = param))"
proof (intro conjI impI allI)
  assume h: "GetPublicKey env db (Value param) = (pk, True, None) \<and> length pk = 32"
  have addr: "take 1 ((replicate AddressLen (CHR 0x00))[0 := CHR 0x00]) @
      copy (drop 1 ((replicate AddressLen (CHR 0x00))[0 := CHR 0x00])) pk = CHR 0x00 # pk"
    by (rule address_bytes) (simp add: h)
  have body: "createCallParam env c db ep param = Inr \<lparr>Type = KeyEd25519, Value = CHR 0x00 # pk\<rparr>"
    using ty h addr by (simp add: createCallParam_def Let_def)
  show "createCallParams env c db (Some (pre @ param # post)) ep =
      createCallParams_loop env c db ep (cpre @ [\<lparr>Type = KeyEd25519, Value = CHR 0x00 # pk\<rparr>]) post"
    by (simp add: resolve_at[OF pre] body)
  show "length (CHR 0x00 # pk) = AddressLen" using h by (simp add: AddressLen_def)
  fix out assume "createCallParams env c db (Some (pre @ param # post)) ep = Inr out"
  from resolved_position[OF pre body this]
  show "out ! length pre = \<lparr>Type = KeyEd25519, Value = CHR 0x00 # pk\<rparr>" by simp
next
  assume h: "GetPublicKey env db (Value param) = (pk, False, None) \<and> ep \<noteq> EndpointKey"
  have "createCallParam env c db ep param =
      Inl (fmt_Errorf ''%w: %s'' [ErrNamedKeyNotFound] [ArgString (Value param)])"
    using ty h by (simp add: createCallParam_def Let_def)
  then show "createCallParams env c db (Some (pre @ param # post)) ep =
      Inl (fmt_Errorf ''%w: %s'' [ErrNamedKeyNotFound] [ArgString (Value param)])"
    by (simp add: resolve_at[OF pre])
next
  assume h: "GetPublicKey env db (Value param) = (pk, False, None) \<and> ep = EndpointKey"
  have body: "createCallParam env c db ep param = Inr param"
    using ty h by (simp add: createCallParam_def Let_def)
  show "createCallParams env c db (Some (pre @ param # post)) ep =
      createCallParams_loop env c db ep (cpre @ [param]) post"
    by (simp add: resolve_at[OF pre] body)
  fix out assume "createCallParams env c db (Some (pre @ param # post)) ep = Inr out"
  from resolved_position[OF pre body this] show "out ! length pre = param" by simp
qed


text \<open>
  Claim C6, witness: a store holding the key \<^verbatim>\<open>alice\<close>; the names \<^verbatim>\<open>alice\<close> and \<^verbatim>\<open>bob\<close>
  under the Execute endpoint, and \<^verbatim>\<open>bob\<close> under the Key endpoint.
\<close>

theorem C6_named_key_witness:
  "GetPublicKey (sim_env []) [(''alice'', replicate 32 (CHR ''k''))] ''alice'' = (replicate 32 (CHR ''k''), True, None) \<and>
   length (replicate 32 (CHR ''k'')) = 32 \<and>
   createCallParams (sim_env []) (sim_cmd 1 sim_step Map.empty) [(''alice'', replicate 32 (CHR ''k''))]
       (Some [\<lparr>Type = KeyEd25519, Value = ''alice''\<rparr>]) EndpointExecute =
     Inr [\<lparr>Type = KeyEd25519, Value = CHR 0x00 # replicate 32 (CHR ''k'')\<rparr>] \<and>
   GetPublicKey (sim_env []) [(''alice'', replicate 32 (CHR ''k''))] ''bob'' = (replicate 32 (CHR 0x00), False, None) \<and>
   createCallParams (sim_env []) (sim_cmd 1 sim_step Map.empty) [(''alice'', replicate 32 (CHR ''k''))]
       (Some [\<lparr>Type = KeyEd25519, Value = ''bob''\<rparr>]) EndpointExecute =
     Inl (fmt_Errorf ''%w: %s'' [ErrNamedKeyNotFound] [ArgString ''bob'']) \<and>
   createCallParams (sim_env []) (sim_cmd 1 sim_step Map.empty) [(''alice'', replicate 32 (CHR ''k''))]
       (Some [\<lparr>Type = KeyEd25519, Value = ''bob''\<rparr>]) EndpointKey =
     Inr [\<lparr>Type = KeyEd25519, Value = ''bob''\<rparr>]"
proof -
  have p: "createCallParams (sim_env []) c db (Some []) ep = Inr []" for c db ep
    by (simp add: createCallParams_def)
  note t = C6_named_key[where env = "sim_env []" and c = "sim_cmd 1 sim_step Map.empty"
      and db = "[(''alice'', replicate 32 (CHR ''k''))]" and pre = "[]" and cpre = "[]" and post = "[]", OF _ p]
  show ?thesis
    using t[where param = "\<lparr>Type = KeyEd25519, Value = ''alice''\<rparr>" and ep = EndpointExecute
        and pk = "replicate 32 (CHR ''k'')"]
      t[where param = "\<lparr>Type = KeyEd25519, Value = ''bob''\<rparr>" and ep = EndpointExecute
        and pk = "replicate 32 (CHR 0x00)"]
      t[where param = "\<lparr>Type = KeyEd25519, Value = ''bob''\<rparr>" and ep = EndpointKey
        and pk = "replicate 32 (CHR 0x00)"]
    by (simp add: sim_env_def)
qed

subsection \<open>Secp256k1 keys (C10)\<close>

text \<open>
  Claim C10. For a Key-endpoint step whose first parameter has type KeySecp256k1,
  \<^verbatim>\<open>verifyEndpoint\<close> and \<^verbatim>\<open>Verify\<close> succeed, and \<^verbatim>\<open>createCallParams\<close> fails with an error
  wrapping \<^verbatim>\<open>ErrInvalidParamType\<close>, which \<^verbatim>\<open>RunStep\<close> returns with the command and the
  store unchanged. For any step with a KeySecp256k1 parameter at any position,
  \<^verbatim>\<open>createCallParams\<close> fails and \<^verbatim>\<open>RunStep\<close> returns that error before the dispatcher is
  called: the counter, the ledger and the store are unchanged.
\<close>

theorem C10_secp256k1_never_dispatched:
  assumes c: "step c = Some stp"
  shows "(Endpoint stp = EndpointKey \<and> Params stp = Some (p0 # rest) \<and> Type p0 = KeySecp256k1 \<longrightarrow>
            verifyEndpoint (lastStep c) stp = Returned None
          \<and> Verify c = Returned None
          \<and> createCallParams env c db (Params stp) (Endpoint stp) =
              Inl (fmt_Errorf ''%w: %s'' [ErrInvalidParamType] [ArgType KeySecp256k1])
          \<and> RunStep env c db =
              Returned ((Some (newResponse 0),
                         Some (fmt_Errorf ''%w: %s'' [ErrInvalidParamType] [ArgType KeySecp256k1])), c, db))
       \<and> ((\<exists>p \<in> set (elems (Params stp)). Type p = KeySecp256k1) \<longrightarrow>
            (\<exists>e. createCallParams env c db (Params stp) (Endpoint stp) = Inl e
                \<and> RunStep env c db = Returned ((Some (newResponse 0), Some e), c, db)))"
proof (intro conjI impI)
  assume h: "Endpoint stp = EndpointKey \<and> Params stp = Some (p0 # rest) \<and> Type p0 = KeySecp256k1"
  then show v: "verifyEndpoint (lastStep c) stp = Returned None"
    by (simp add: verifyEndpoint_def)
  from h v c show "Verify c = Returned None"
    by (simp add: Verify_def)
  from h show r: "createCallParams env c db (Params stp) (Endpoint stp) =
      Inl (fmt_Errorf ''%w: %s'' [ErrInvalidParamType] [ArgType KeySecp256k1])"
    by (simp add: createCallParams_def secp_unresolved)
  from r c show "RunStep env c db =
      Returned ((Some (newResponse 0),
                 Some (fmt_Errorf ''%w: %s'' [ErrInvalidParamType] [ArgType KeySecp256k1])), c, db)"
    by (simp add: RunStep_def)
next
  assume "\<exists>p \<in> set (elems (Params stp)). Type p = KeySecp256k1"
  then obtain p where p: "p \<in> set (elems (Params stp))" "Type p = KeySecp256k1" by blast
  have "\<exists>e. createCallParam env c db (Endpoint stp) p = Inl e"
    by (simp add: secp_unresolved[OF p(2)])
  from failing_member[OF p(1) this]
  obtain e where e: "createCallParams env c db (Params stp) (Endpoint stp) = Inl e"
    by (auto simp: createCallParams_def)
  with c have "RunStep env c db = Returned ((Some (newResponse 0), Some e), c, db)"
    by (simp add: RunStep_def)
  with e show "\<exists>e. createCallParams env c db (Params stp) (Endpoint stp) = Inl e
      \<and> RunStep env c db = Returned ((Some (newResponse 0), Some e), c, db)" by blast
qed

text \<open>Claim C10, witness: a Key-endpoint step with the Secp256k1 key name \<^verbatim>\<open>carol\<close>.\<close>

theorem C10_secp256k1_never_dispatched_witness:
  "step (sim_cmd 0 \<lparr>Endpoint = EndpointKey, Method = ''create'', MaxUnits = 0,
          Params = Some [\<lparr>Type = KeySecp256k1, Value = ''carol''\<rparr>]\<rparr> Map.empty) =
     Some \<lparr>Endpoint = EndpointKey, Method = ''create'', MaxUnits = 0,
          Params = Some [\<lparr>Type = KeySecp256k1, Value = ''carol''\<rparr>]\<rparr> \<and>
   Verify (sim_cmd 0 \<lparr>Endpoint = EndpointKey, Method = ''create'', MaxUnits = 0,
          Params = Some [\<lparr>Type = KeySecp256k1, Value = ''carol''\<rparr>]\<rparr> Map.empty) = Returned None \<and>
   RunStep (sim_env []) (sim_cmd 0 \<lparr>Endpoint = EndpointKey, Method = ''create'', MaxUnits = 0,
          Params = Some [\<lparr>Type = KeySecp256k1, Value = ''carol''\<rparr>]\<rparr> Map.empty) [] =
     Returned ((Some (newResponse 0),
                Some (fmt_Errorf ''%w: %s'' [ErrInvalidParamType] [ArgType KeySecp256k1])),
               sim_cmd 0 \<lparr>Endpoint = EndpointKey, Method = ''create'', MaxUnits = 0,
                 Params = Some [\<lparr>Type = KeySecp256k1, Value = ''carol''\<rparr>]\<rparr> Map.empty, [])"
  using C10_secp256k1_never_dispatched[where c = "sim_cmd 0 \<lparr>Endpoint = EndpointKey, Method = ''create'', MaxUnits = 0,
          Params = Some [\<lparr>Type = KeySecp256k1, Value = ''carol''\<rparr>]\<rparr> Map.empty"
      and stp = "\<lparr>Endpoint = EndpointKey, Method = ''create'', MaxUnits = 0,
          Params = Some [\<lparr>Type = KeySecp256k1, Value = ''carol''\<rparr>]\<rparr>"
      and ?p0.0 = "\<lparr>Type = KeySecp256k1, Value = ''carol''\<rparr>" and rest = "[]"
      and env = "sim_env []" and db = "[]"]
  by (simp add: sim_cmd_def)

subsection \<open>The dispatcher\<close>

text \<open>
  The Execute (non-creation) and ReadOnly branches after a successful call of the
  interpreter: what \<^verbatim>\<open>runStepFunc\<close> does with the result payloads.
\<close>

lemma execute_call:
  assumes ep: "ep = EndpointReadOnly \<or> (ep = EndpointExecute \<and> method \<noteq> ProgramCreate)"
    and id0: "ids_ToID (Value p0) = Inr id0"
    and call: "programExecuteFunc env db id0 rest method
        (if ep = EndpointReadOnly then MaxUint64 else maxUnits) = ((id', response, balance, None), db')"
  shows "runStepFunc_switch env db ep maxUnits method (p0 # rest) resp =
      (if length response > 1
       then Returned (Some (errors_New ''multi response not supported''), resp, db')
       else case response of
              [] \<Rightarrow> Panicked (IndexOutOfRange 0 0)
            | res # others \<Rightarrow>
                let resp1 = (case res of None \<Rightarrow> resp | Some r \<Rightarrow> setResponse r resp)
                in Returned (None,
                     if ep = EndpointReadOnly then resp1
                     else setBalance balance (setTxID (ID_String env id') resp1), db'))"
  using ep
proof
  assume "ep = EndpointReadOnly"
  with id0 call show ?thesis
    by (simp add: runStepFunc_switch_def split: list.split)
next
  assume "ep = EndpointExecute \<and> method \<noteq> ProgramCreate"
  with id0 call show ?thesis
    by (simp add: runStepFunc_switch_def split: list.split)
qed


text \<open>
  When the dispatcher returns, with or without an error, and the identifier of the
  response (if any) can be read back, \<^verbatim>\<open>RunStep\<close> returns the response, carrying the
  error if there is one, and the counter is one more.
\<close>

lemma RunStep_returned:
  assumes c: "step c = Some stp"
    and ps: "createCallParams env c db (Params stp) (Endpoint stp) = Inr params"
    and run: "runStepFunc env db (Endpoint stp) (MaxUnits stp) (Method stp) params (newResponse (lastStep c)) =
        Returned (err, r, db')"
    and txid: "\<And>t. TxID r = Some t \<Longrightarrow> snd (ids_FromString env t) = None"
  shows "\<exists>c'. RunStep env c db =
        Returned ((Some (case err of None \<Rightarrow> r | Some e \<Rightarrow> setError e r), None), c', db')
      \<and> lastStep c' = lastStep c + 1"
proof (cases "TxID r")
  case None
  then show ?thesis using c ps run
    by (simp add: RunStep_def getTxID_def setError_def Let_def split: option.split)
next
  case (Some t)
  from txid[OF Some] obtain i where "ids_FromString env t = (i, None)"
    by (cases "ids_FromString env t") simp
  with Some show ?thesis using c ps run
    by (simp add: RunStep_def getTxID_def setError_def Let_def split: option.split)
qed

subsection \<open>More than one result payload (C4)\<close>

text \<open>
  Claim C4. For an Execute step with a non-creation method and for a ReadOnly step
  whose parameters resolve and whose first parameter is an identifier: if the
  interpreter returns without error and with more than one result payload,
  \<^verbatim>\<open>runStepFunc\<close> returns the error \<^verbatim>\<open>multi response not supported\<close> and leaves the
  response as it was but for the timestamp; \<^verbatim>\<open>RunStep\<close> returns a response that carries
  this error and has no result payload, identifier, balance or message.
\<close>

theorem C4_multi_response:
  assumes c: "step c = Some stp"
    and ep: "Endpoint stp = EndpointReadOnly \<or> (Endpoint stp = EndpointExecute \<and> Method stp \<noteq> ProgramCreate)"
    and ps: "createCallParams env c db (Params stp) (Endpoint stp) = Inr (p0 # rest)"
    and id0: "ids_ToID (Value p0) = Inr id0"
    and call: "programExecuteFunc env db id0 rest (Method stp)
        (if Endpoint stp = EndpointReadOnly then MaxUint64 else MaxUnits stp) =
          ((id', response, balance, None), db')"
    and many: "length response > 1"
  shows "runStepFunc env db (Endpoint stp) (MaxUnits stp) (Method stp) (p0 # rest) resp =
           Returned (Some (errors_New ''multi response not supported''),
                     setTimestamp (time_Now_Unix env 0) resp, db')
       \<and> (\<exists>r c'. RunStep env c db = Returned ((Some r, None), c', db')
             \<and> Error r = Some (errors_New ''multi response not supported'')
             \<and> Result r = None \<and> TxID r = None \<and> Balance r = None \<and> Msg r = None
             \<and> lastStep c' = lastStep c + 1)"
proof
  show run: "runStepFunc env db (Endpoint stp) (MaxUnits stp) (Method stp) (p0 # rest) resp =
      Returned (Some (errors_New ''multi response not supported''),
                setTimestamp (time_Now_Unix env 0) resp, db')" for resp
    using many by (simp add: runStepFunc_def execute_call[OF ep id0 call])
  have "TxID (setTimestamp (time_Now_Unix env 0) (newResponse (lastStep c))) = None"
    by (simp add: setTimestamp_def newResponse_def)
  then have "\<And>t. TxID (setTimestamp (time_Now_Unix env 0) (newResponse (lastStep c))) = Some t \<Longrightarrow>
      snd (ids_FromString env t) = None" by simp
  from RunStep_returned[OF c ps run this]
  show "\<exists>r c'. RunStep env c db = Returned ((Some r, None), c', db')
      \<and> Error r = Some (errors_New ''multi response not supported'')
      \<and> Result r = None \<and> TxID r = None \<and> Balance r = None \<and> Msg r = None
      \<and> lastStep c' = lastStep c + 1"
    by (auto simp: setError_def setTimestamp_def newResponse_def)
qed

text \<open>Claim C4, witness: an Execute step whose call returns the two payloads \<^verbatim>\<open>a\<close> and \<^verbatim>\<open>b\<close>.\<close>

theorem C4_multi_response_witness:
  "RunStep (sim_env [Some ''a'', Some ''b''])
     (sim_cmd 3 \<lparr>Endpoint = EndpointExecute, Method = ''call'', MaxUnits = 9,
        Params = Some [\<lparr>Type = ID, Value = sim_program_id\<rparr>, \<lparr>Type = Uint64, Value = ''100''\<rparr>]\<rparr>
        Map.empty) [] =
   Returned ((Some ((newResponse 3)\<lparr>Error := Some (errors_New ''multi response not supported''),
                                      Timestamp := Some 0\<rparr>), None),
     sim_cmd 4 \<lparr>Endpoint = EndpointExecute, Method = ''call'', MaxUnits = 9,
        Params = Some [\<lparr>Type = ID, Value = sim_program_id\<rparr>, \<lparr>Type = Uint64, Value = ''100''\<rparr>]\<rparr>
        Map.empty, [])"
proof -
  let ?stp = "\<lparr>Endpoint = EndpointExecute, Method = ''call'', MaxUnits = 9,
        Params = Some [\<lparr>Type = ID, Value = sim_program_id\<rparr>, \<lparr>Type = Uint64, Value = ''100''\<rparr>]\<rparr>"
  let ?c = "sim_cmd 3 ?stp Map.empty"
  have ps: "createCallParams (sim_env [Some ''a'', Some ''b'']) ?c [] (Params ?stp) (Endpoint ?stp) =
      Inr [\<lparr>Type = ID, Value = sim_program_id\<rparr>, \<lparr>Type = Uint64, Value = ''100''\<rparr>]"
    by (simp add: createCallParams_def createCallParam_def ids_ToID_def sim_program_id_def Let_def)
  have "runStepFunc (sim_env [Some ''a'', Some ''b'']) [] (Endpoint ?stp) (MaxUnits ?stp) (Method ?stp)
      [\<lparr>Type = ID, Value = sim_program_id\<rparr>, \<lparr>Type = Uint64, Value = ''100''\<rparr>] (newResponse 3) =
      Returned (Some (errors_New ''multi response not supported''),
        setTimestamp (time_Now_Unix (sim_env [Some ''a'', Some ''b'']) 0) (newResponse 3), [])"
    using C4_multi_response[where c = ?c and stp = ?stp and env = "sim_env [Some ''a'', Some ''b'']"
        and db = "[]" and ?p0.0 = "\<lparr>Type = ID, Value = sim_program_id\<rparr>"
        and rest = "[\<lparr>Type = Uint64, Value = ''100''\<rparr>]" and ?id0.0 = "sim_program_id"
        and id' = "sim_tx_id" and response = "[Some ''a'', Some ''b'']" and balance = 9
        and db' = "[]" and resp = "newResponse 3", OF _ _ ps]
    by (simp add: sim_cmd_def ids_ToID_def sim_env_def ProgramCreate_def sim_program_id_def)
  then show ?thesis using ps
    by (simp add: RunStep_def sim_cmd_def getTxID_def setError_def setTimestamp_def newResponse_def sim_env_def)
qed

subsection \<open>No result payload (C9)\<close>

text \<open>
  Claim C9. In the Execute (non-creation) and ReadOnly branches, after a call of the
  interpreter that returns without error: with an empty result sequence \<^verbatim>\<open>runStepFunc\<close>
  panics at \<^verbatim>\<open>response[0]\<close> (index 0 out of range for length 0); with exactly one
  payload it reads that payload and returns without error; and whenever it returns
  without error the result sequence had exactly one element.
\<close>

theorem C9_empty_result_panics:
  assumes ep: "ep = EndpointReadOnly \<or> (ep = EndpointExecute \<and> meth \<noteq> ProgramCreate)"
    and id0: "ids_ToID (Value p0) = Inr id0"
    and call: "programExecuteFunc env db id0 rest meth
        (if ep = EndpointReadOnly then MaxUint64 else maxUnits) = ((id', response, balance, None), db')"
  shows "(response = [] \<longrightarrow>
            runStepFunc env db ep maxUnits meth (p0 # rest) resp = Panicked (IndexOutOfRange 0 0))
       \<and> (\<forall>res. response = [res] \<longrightarrow>
            (\<exists>r. runStepFunc env db ep maxUnits meth (p0 # rest) resp = Returned (None, r, db')
                \<and> Result r = (case res of None \<Rightarrow> Result resp | Some b \<Rightarrow> Some b)))
       \<and> (\<forall>r d. runStepFunc env db ep maxUnits meth (p0 # rest) resp = Returned (None, r, d) \<longrightarrow>
            length response = 1)"
proof (intro conjI impI allI)
  assume "response = []"
  then show "runStepFunc env db ep maxUnits meth (p0 # rest) resp = Panicked (IndexOutOfRange 0 0)"
    by (simp add: runStepFunc_def execute_call[OF ep id0 call])
next
  fix res assume "response = [res]"
  then show "\<exists>r. runStepFunc env db ep maxUnits meth (p0 # rest) resp = Returned (None, r, db')
      \<and> Result r = (case res of None \<Rightarrow> Result resp | Some b \<Rightarrow> Some b)"
    by (simp add: runStepFunc_def execute_call[OF ep id0 call] Let_def setTimestamp_def setBalance_def
        setTxID_def setResponse_def split: option.split)
next
  fix r d assume "runStepFunc env db ep maxUnits meth (p0 # rest) resp = Returned (None, r, d)"
  then show "length response = 1"
    by (cases response) (auto simp: runStepFunc_def execute_call[OF ep id0 call] Let_def split: if_splits)
qed

text \<open>Claim C9, witness: a ReadOnly step whose call returns no payload.\<close>

theorem C9_empty_result_panics_witness:
  "ids_ToID (Value \<lparr>Type = ID, Value = sim_program_id\<rparr>) = Inr (sim_program_id) \<and>
   programExecuteFunc (sim_env []) [] (sim_program_id) [] ''get'' MaxUint64 =
     ((sim_tx_id, [], MaxUint64, None), []) \<and>
   runStepFunc (sim_env []) [] EndpointReadOnly 7 ''get'' [\<lparr>Type = ID, Value = sim_program_id\<rparr>]
       (newResponse 0) = Panicked (IndexOutOfRange 0 0)"
  using C9_empty_result_panics[where ep = EndpointReadOnly and ?p0.0 = "\<lparr>Type = ID, Value = sim_program_id\<rparr>"
      and ?id0.0 = "sim_program_id" and env = "sim_env []" and db = "[]" and rest = "[]"
      and meth = "''get''" and maxUnits = 7 and id' = "sim_tx_id" and response = "[]"
      and balance = MaxUint64 and db' = "[]" and resp = "newResponse 0"]
  by (simp add: ids_ToID_def sim_env_def sim_program_id_def)


subsection \<open>ReadOnly steps (C5)\<close>

lemma MaxUint64_greatest: "(u :: uint64) \<le> MaxUint64"
proof -
  have m: "MaxUint64 = - 1" by (simp add: MaxUint64_def)
  show ?thesis unfolding m by (rule word_n1_ge)
qed

text \<open>
  Claim C5. When \<^verbatim>\<open>runStepFunc\<close> returns without error for the ReadOnly endpoint, the
  balance of the response is as it was before the call; the interpreter was called
  with the budget \<^verbatim>\<open>math.MaxUint64\<close>, the greatest 64-bit value; and the outcome is the
  same for every value of \<open>maxUnits\<close>. A response that \<^verbatim>\<open>RunStep\<close> returns for a ReadOnly
  step has no balance.
\<close>

theorem C5_readonly:
  assumes run: "runStepFunc env db EndpointReadOnly maxUnits method params resp = Returned (None, resp', db')"
  shows "Balance resp' = Balance resp
       \<and> (\<exists>p0 rest id0 id' response balance.
             params = p0 # rest \<and> ids_ToID (Value p0) = Inr id0 \<and>
             programExecuteFunc env db id0 rest method MaxUint64 = ((id', response, balance, None), db'))
       \<and> (\<forall>u. runStepFunc env db EndpointReadOnly u method params resp = Returned (None, resp', db'))
       \<and> (\<forall>u :: uint64. u \<le> MaxUint64)
       \<and> (\<forall>c stp. step c = Some stp \<and> Endpoint stp = EndpointReadOnly \<longrightarrow>
             (\<forall>r e c' d. RunStep env c db = Returned ((Some r, e), c', d) \<longrightarrow> Balance r = None))"
proof (intro conjI allI impI)
  from run obtain p0 rest where params: "params = p0 # rest"
    by (cases params) (auto simp: runStepFunc_def runStepFunc_switch_def)
  from run params obtain id0 where id0: "ids_ToID (Value p0) = Inr id0"
    by (cases "ids_ToID (Value p0)") (auto simp: runStepFunc_def runStepFunc_switch_def)
  obtain id' response balance err d where
    call: "programExecuteFunc env db id0 rest method MaxUint64 = ((id', response, balance, err), d)"
    by (metis prod_cases4 surj_pair)
  from run params id0 call have err: "err = None"
    by (cases err) (auto simp: runStepFunc_def runStepFunc_switch_def)
  from run params id0 call err have d: "d = db'"
    by (auto simp: runStepFunc_def runStepFunc_switch_def Let_def split: if_splits list.splits)
  show "\<exists>p0 rest id0 id' response balance.
      params = p0 # rest \<and> ids_ToID (Value p0) = Inr id0 \<and>
      programExecuteFunc env db id0 rest method MaxUint64 = ((id', response, balance, None), db')"
    using params id0 call err d by blast
  show "Balance resp' = Balance resp"
    using run params id0 call err
    by (auto simp: runStepFunc_def runStepFunc_switch_def Let_def setTimestamp_def setResponse_def
        split: if_splits list.splits option.splits)
  show "runStepFunc env db EndpointReadOnly u method params resp = Returned (None, resp', db')" for u
    using run by (simp add: runStepFunc_def runStepFunc_switch_def)
  show "u \<le> MaxUint64" for u :: uint64 by (rule MaxUint64_greatest)
next
  fix c stp r e c' d
  assume h: "step c = Some stp \<and> Endpoint stp = EndpointReadOnly"
    and rs: "RunStep env c db = Returned ((Some r, e), c', d)"
  show "Balance r = None"
  proof (cases "createCallParams env c db (Params stp) (Endpoint stp)")
    case (Inl err)
    with h rs show ?thesis by (auto simp: RunStep_def newResponse_def)
  next
    case (Inr ps)
    show ?thesis
    proof (cases "runStepFunc_switch env db EndpointReadOnly (MaxUnits stp) (Method stp) ps (newResponse (lastStep c))")
      case (Panicked x)
      with h rs Inr show ?thesis by (simp add: RunStep_def runStepFunc_def)
    next
      case (Returned t)
      obtain err r0 d0 where t: "t = (err, r0, d0)" by (cases t)
      have "Balance r0 = None"
        using Returned t
        by (auto simp: runStepFunc_switch_def Let_def setResponse_def newResponse_def
            split: list.splits sum.splits prod.splits if_splits option.splits)
      with h rs Inr Returned t show ?thesis
        by (auto simp: RunStep_def runStepFunc_def Let_def getTxID_def setError_def setTimestamp_def
            split: option.splits prod.splits)
    qed
  qed
qed


text \<open>Claim C5, witness: a ReadOnly step whose call returns the payload \<^verbatim>\<open>ok\<close>, with budgets 7 and 1000.\<close>

theorem C5_readonly_witness:
  "runStepFunc (sim_env [Some ''ok'']) [] EndpointReadOnly 7 ''get'' [\<lparr>Type = ID, Value = sim_program_id\<rparr>]
       (newResponse 0) =
     Returned (None, (newResponse 0)\<lparr>Result := Some ''ok'', Timestamp := Some 0\<rparr>, []) \<and>
   Balance ((newResponse 0)\<lparr>Result := Some ''ok'', Timestamp := Some 0\<rparr>) = None \<and>
   runStepFunc (sim_env [Some ''ok'']) [] EndpointReadOnly 1000 ''get'' [\<lparr>Type = ID, Value = sim_program_id\<rparr>]
       (newResponse 0) =
     Returned (None, (newResponse 0)\<lparr>Result := Some ''ok'', Timestamp := Some 0\<rparr>, [])"
proof -
  have run: "runStepFunc (sim_env [Some ''ok'']) [] EndpointReadOnly 7 ''get''
      [\<lparr>Type = ID, Value = sim_program_id\<rparr>] (newResponse 0) =
      Returned (None, (newResponse 0)\<lparr>Result := Some ''ok'', Timestamp := Some 0\<rparr>, [])"
    by (simp add: runStepFunc_def runStepFunc_switch_def ids_ToID_def sim_program_id_def sim_env_def
        setResponse_def setTimestamp_def newResponse_def)
  from C5_readonly[OF run] have "Balance ((newResponse 0)\<lparr>Result := Some ''ok'', Timestamp := Some 0\<rparr>) =
      Balance (newResponse 0)"
    and "runStepFunc (sim_env [Some ''ok'']) [] EndpointReadOnly 1000 ''get''
      [\<lparr>Type = ID, Value = sim_program_id\<rparr>] (newResponse 0) =
      Returned (None, (newResponse 0)\<lparr>Result := Some ''ok'', Timestamp := Some 0\<rparr>, [])"
    by blast+
  with run show ?thesis by (simp add: newResponse_def)
qed

subsection \<open>Loading the step (C8)\<close>




subsection \<open>Steps without parameters (C2)\<close>

text \<open>
  Claim C2 at its failing input. For a step whose \<^verbatim>\<open>params\<close> is the nil slice, \<^verbatim>\<open>Verify\<close>
  returns an error that wraps \<^verbatim>\<open>ErrInvalidStep\<close>, for every endpoint. For a step whose
  \<^verbatim>\<open>params\<close> is an empty slice that is not nil (what a plan with \<^verbatim>\<open>"params": []\<close> gives),
  the nil test passes and \<^verbatim>\<open>verifyEndpoint\<close> panics at \<^verbatim>\<open>step.Params[0]\<close>, for every
  endpoint: no \<^verbatim>\<open>InvalidStep\<close> error is returned, and a \<^verbatim>\<open>Run\<close> whose inline plan parses
  to such a step panics.
\<close>

theorem C2_empty_params_panic:
  "Verify (c\<lparr>step := Some (stp\<lparr>Params := None\<rparr>)\<rparr>) =
     Returned (Some (fmt_Errorf ''%w: %s'' [ErrInvalidStep] [ArgString ''no params found'']))
   \<and> errors_Is (fmt_Errorf ''%w: %s'' [ErrInvalidStep] [ArgString ''no params found'']) ErrInvalidStep
   \<and> Verify (c\<lparr>step := Some (stp\<lparr>Params := Some []\<rparr>)\<rparr>) = Panicked (IndexOutOfRange 0 0)
   \<and> (\<forall>s. planStep c = Some s \<and> s \<noteq> [] \<and> unmarshalStep env s = (Some (stp\<lparr>Params := Some []\<rparr>), None) \<longrightarrow>
         Run env c db = Panicked (IndexOutOfRange 0 0))"
  by (simp add: Verify_def verifyEndpoint_def Run_def Init_def)

text \<open>
  Claim C2, witness: a run whose inline plan parses to the key step with an empty
  parameter list.
\<close>

theorem C2_empty_params_panic_witness:
  "unmarshalStep ((sim_env [])\<lparr>unmarshalStep := \<lambda>b. (Some (sim_step\<lparr>Params := Some []\<rparr>), None)\<rparr>) ''{}'' =
     (Some (sim_step\<lparr>Params := Some []\<rparr>), None) \<and>
   Run ((sim_env [])\<lparr>unmarshalStep := \<lambda>b. (Some (sim_step\<lparr>Params := Some []\<rparr>), None)\<rparr>)
     \<lparr>lastStep = 0, file_name = [], planStep = Some ''{}'', step = None, programIDStrMap = Map.empty\<rparr> [] =
     Panicked (IndexOutOfRange 0 0)"
  using C2_empty_params_panic[where c = "\<lparr>lastStep = 0, file_name = [], planStep = Some ''{}'', step = None,
        programIDStrMap = Map.empty\<rparr>" and stp = sim_step
      and env = "(sim_env [])\<lparr>unmarshalStep := \<lambda>b. (Some (sim_step\<lparr>Params := Some []\<rparr>), None)\<rparr>"
      and db = "[]"]
  by simp

subsection \<open>The step counter (C3)\<close>

text \<open>
  A validated step has at least one parameter, and resolution keeps their number.
\<close>

lemma Verify_params_nonempty:
  "step c = Some stp \<Longrightarrow> Verify c = Returned None \<Longrightarrow> elems (Params stp) \<noteq> []"
  by (auto simp: Verify_def verifyEndpoint_def split: if_splits list.splits)

lemma resolved_length:
  "createCallParams env c db ps ep = Inr out \<Longrightarrow> length out = length (elems ps)"
  using loop_result[of env c db ep "[]" "elems ps" out] by (auto simp: createCallParams_def)

text \<open>
  When the interpreter returns at least one payload whenever it returns without error,
  the dispatcher returns for every endpoint and every non-empty parameter list, and
  the identifier of its response, if it sets one, is the text of an identifier.
\<close>

lemma execute_returns:
  assumes ep: "ep = EndpointReadOnly \<or> (ep = EndpointExecute \<and> method \<noteq> ProgramCreate)"
    and id0: "ids_ToID (Value p0) = Inr id0"
    and payload: "\<forall>i ps u t response b d.
        programExecuteFunc env db i ps method u = ((t, response, b, None), d) \<longrightarrow> response \<noteq> []"
  shows "\<exists>err r d. runStepFunc_switch env db ep maxUnits method (p0 # rest) resp = Returned (err, r, d)
      \<and> (TxID r = TxID resp \<or> (\<exists>i. TxID r = Some (ID_String env i)))"
proof -
  let ?u = "if ep = EndpointReadOnly then MaxUint64 else maxUnits"
  obtain id' response balance err db' where
    c: "programExecuteFunc env db id0 rest method ?u = ((id', response, balance, err), db')"
    by (metis prod_cases4 surj_pair)
  show ?thesis
  proof (cases err)
    case (Some e)
    with ep id0 c show ?thesis by (auto simp: runStepFunc_switch_def)
  next
    case None
    with c have c': "programExecuteFunc env db id0 rest method ?u = ((id', response, balance, None), db')"
      by simp
    from payload c' have "response \<noteq> []" by blast
    then obtain res others where r: "response = res # others"
      by (cases response) auto
    show ?thesis unfolding execute_call[OF ep id0 c'] using r
      by (auto simp: Let_def setBalance_def setTxID_def setResponse_def split: option.splits)
  qed
qed

lemma runStepFunc_returns:
  assumes ne: "params \<noteq> []"
    and payload: "\<forall>i ps u t response b d.
        programExecuteFunc env db i ps meth u = ((t, response, b, None), d) \<longrightarrow> response \<noteq> []"
  shows "\<exists>err r d. runStepFunc env db ep maxUnits meth params resp = Returned (err, r, d)
      \<and> (TxID r = TxID resp \<or> (\<exists>i. TxID r = Some (ID_String env i)))"
proof -
  from ne obtain p0 rest where params: "params = p0 # rest" by (cases params) auto
  have "\<exists>err r d. runStepFunc_switch env db ep maxUnits meth (p0 # rest) resp = Returned (err, r, d)
      \<and> (TxID r = TxID resp \<or> (\<exists>i. TxID r = Some (ID_String env i)))"
  proof (cases ep)
    case EndpointKey
    obtain key err d where "keyCreateFunc env db (Value p0) = ((key, err), d)"
      by (metis surj_pair)
    with EndpointKey show ?thesis
      by (auto simp: runStepFunc_switch_def setMsg_def)
  next
    case EndpointExecute
    show ?thesis
    proof (cases "meth = ProgramCreate")
      case True
      obtain i err d where "programCreateFunc env db (Value p0) = ((i, err), d)"
        by (metis surj_pair)
      with True EndpointExecute show ?thesis
        by (cases err) (auto simp: runStepFunc_switch_def setTimestamp_def setTxID_def)
    next
      case False
      show ?thesis
      proof (cases "ids_ToID (Value p0)")
        case (Inl e)
        with False EndpointExecute show ?thesis by (simp add: runStepFunc_switch_def)
      next
        case (Inr i)
        from False EndpointExecute
        have "ep = EndpointReadOnly \<or> (ep = EndpointExecute \<and> meth \<noteq> ProgramCreate)" by simp
        from execute_returns[OF this Inr payload] show ?thesis by blast
      qed
    qed
  next
    case EndpointReadOnly
    show ?thesis
    proof (cases "ids_ToID (Value p0)")
      case (Inl e)
      with EndpointReadOnly show ?thesis by (simp add: runStepFunc_switch_def)
    next
      case (Inr i)
      from EndpointReadOnly
      have "ep = EndpointReadOnly \<or> (ep = EndpointExecute \<and> meth \<noteq> ProgramCreate)" by simp
      from execute_returns[OF this Inr payload] show ?thesis by blast
    qed
  next
    case (EndpointOther x)
    then show ?thesis by (simp add: runStepFunc_switch_def)
  qed
  then show ?thesis using params
    by (auto simp: runStepFunc_def setTimestamp_def)
qed

text \<open>
  Under that condition on the interpreter, and when the text of an identifier can be
  read back, every validated and resolved step is dispatched, \<^verbatim>\<open>RunStep\<close> returns a
  response without error of its own, and the counter is one more.
\<close>

lemma RunStep_counter:
  assumes c: "step c = Some stp"
    and v: "Verify c = Returned None"
    and ps: "createCallParams env c db (Params stp) (Endpoint stp) = Inr params"
    and payload: "\<forall>i ps u t response b d.
        programExecuteFunc env db i ps (Method stp) u = ((t, response, b, None), d) \<longrightarrow> response \<noteq> []"
    and roundtrip: "\<forall>i. snd (ids_FromString env (ID_String env i)) = None"
  shows "\<exists>r c' db'. RunStep env c db = Returned ((Some r, None), c', db')
      \<and> lastStep c' = lastStep c + 1"
proof -
  from Verify_params_nonempty[OF c v] resolved_length[OF ps] have ne: "params \<noteq> []" by auto
  from runStepFunc_returns[where env = env and db = db and meth = "Method stp" and params = params
      and ep = "Endpoint stp" and maxUnits = "MaxUnits stp" and resp = "newResponse (lastStep c)",
      OF ne payload]
  obtain err r d where
    run: "runStepFunc env db (Endpoint stp) (MaxUnits stp) (Method stp) params (newResponse (lastStep c)) =
        Returned (err, r, d)"
    and tx: "TxID r = TxID (newResponse (lastStep c)) \<or> (\<exists>i. TxID r = Some (ID_String env i))"
    by blast
  have "\<And>t. TxID r = Some t \<Longrightarrow> snd (ids_FromString env t) = None"
    using tx roundtrip by (auto simp: newResponse_def)
  from RunStep_returned[OF c ps run this] show ?thesis by blast
qed

text \<open>
  Claim C3 at its failing input. A ReadOnly step that passes \<^verbatim>\<open>Verify\<close> and whose
  parameters resolve, run against an interpreter that returns no error and no payload:
  \<^verbatim>\<open>runStepFunc\<close> panics at \<^verbatim>\<open>response[0]\<close>, so \<^verbatim>\<open>RunStep\<close> returns no response and the
  counter is not incremented.
\<close>

theorem C3_no_payload_no_increment:
  "Verify (sim_cmd 5 \<lparr>Endpoint = EndpointReadOnly, Method = ''get'', MaxUnits = 0,
        Params = Some [\<lparr>Type = ID, Value = sim_program_id\<rparr>]\<rparr> Map.empty) = Returned None
   \<and> createCallParams (sim_env [])
       (sim_cmd 5 \<lparr>Endpoint = EndpointReadOnly, Method = ''get'', MaxUnits = 0,
          Params = Some [\<lparr>Type = ID, Value = sim_program_id\<rparr>]\<rparr> Map.empty) []
       (Some [\<lparr>Type = ID, Value = sim_program_id\<rparr>]) EndpointReadOnly =
     Inr [\<lparr>Type = ID, Value = sim_program_id\<rparr>]
   \<and> programExecuteFunc (sim_env []) [] sim_program_id [] ''get'' MaxUint64 =
       ((sim_tx_id, [], MaxUint64, None), [])
   \<and> RunStep (sim_env [])
       (sim_cmd 5 \<lparr>Endpoint = EndpointReadOnly, Method = ''get'', MaxUnits = 0,
          Params = Some [\<lparr>Type = ID, Value = sim_program_id\<rparr>]\<rparr> Map.empty) [] =
     Panicked (IndexOutOfRange 0 0)"
  by (simp add: Verify_def verifyEndpoint_def sim_cmd_def createCallParams_def createCallParam_def
      ids_ToID_def sim_program_id_def sim_env_def RunStep_def runStepFunc_def runStepFunc_switch_def Let_def)

subsection \<open>Creating a key twice (C7)\<close>

text \<open>
  The dispatcher alone tolerates a duplicate name: when \<^verbatim>\<open>keyCreateFunc\<close> returns an
  error that wraps \<^verbatim>\<open>ErrDuplicateKeyName\<close>, \<^verbatim>\<open>runStepFunc\<close> returns no error and sets the
  message from the key that came with it. But the resolver replaces the name of a
  stored key by its address, also for the Key endpoint.
\<close>

lemma key_duplicate_tolerated:
  assumes "keyCreateFunc env db (Value p0) = ((key, err), db')"
    and "is_err err ErrDuplicateKeyName \<or> err = None"
  shows "runStepFunc env db EndpointKey maxUnits method (p0 # rest) resp =
      Returned (None,
        setTimestamp (time_Now_Unix env 0)
          (setMsg (''created named key with address '' @ Address env key) resp), db')"
  using assms by (auto simp: runStepFunc_def runStepFunc_switch_def)

lemma stored_key_rewritten:
  assumes "GetPublicKey env db name = (pk, True, None)" and "length pk = 32"
  shows "createCallParams env c db (Some [\<lparr>Type = KeyEd25519, Value = name\<rparr>]) ep =
      Inr [\<lparr>Type = KeyEd25519, Value = CHR 0x00 # pk\<rparr>]"
  using assms address_bytes[OF assms(2), of "CHR 0x00"]
  by (simp add: createCallParams_def createCallParam_def Let_def)

text \<open>
  Claim C7 at its failing input: the step that creates the key \<^verbatim>\<open>alice\<close>, run twice
  against a key store that is empty at first. The first run stores a key under
  \<^verbatim>\<open>alice\<close> and reports its address. In the second run the resolver finds that key and
  passes its address as the key name, so the dispatcher creates a second key under
  that name and reports a different address; the name \<^verbatim>\<open>alice\<close> never reaches
  \<^verbatim>\<open>keyCreateFunc\<close> again. Given the name \<^verbatim>\<open>alice\<close> itself, the dispatcher would have
  reported the first address (last conjunct).
\<close>

theorem C7_second_key_run:
  "RunStep (sim_env []) (sim_cmd 0 sim_step Map.empty) [] =
     Returned ((Some ((newResponse 0)\<lparr>Msg := Some ''created named key with address AAAAAAAAAAAAAAAAAAAAAAAAAAAAAAAA'',
                                        Timestamp := Some 0\<rparr>), None),
       sim_cmd 1 sim_step Map.empty,
       [(''alice'', ''AAAAAAAAAAAAAAAAAAAAAAAAAAAAAAAA'')])
   \<and> createCallParams (sim_env []) (sim_cmd 1 sim_step Map.empty)
       [(''alice'', ''AAAAAAAAAAAAAAAAAAAAAAAAAAAAAAAA'')] (Params sim_step) (Endpoint sim_step) =
     Inr [\<lparr>Type = KeyEd25519, Value = CHR 0x00 # ''AAAAAAAAAAAAAAAAAAAAAAAAAAAAAAAA''\<rparr>]
   \<and> RunStep (sim_env []) (sim_cmd 1 sim_step Map.empty)
       [(''alice'', ''AAAAAAAAAAAAAAAAAAAAAAAAAAAAAAAA'')] =
     Returned ((Some ((newResponse 1)\<lparr>Msg := Some ''created named key with address BAAAAAAAAAAAAAAAAAAAAAAAAAAAAAAA'',
                                        Timestamp := Some 0\<rparr>), None),
       sim_cmd 2 sim_step Map.empty,
       [(''alice'', ''AAAAAAAAAAAAAAAAAAAAAAAAAAAAAAAA''),
        (CHR 0x00 # ''AAAAAAAAAAAAAAAAAAAAAAAAAAAAAAAA'', ''BAAAAAAAAAAAAAAAAAAAAAAAAAAAAAAA'')])
   \<and> runStepFunc (sim_env []) [(''alice'', ''AAAAAAAAAAAAAAAAAAAAAAAAAAAAAAAA'')] EndpointKey 0 ''create''
       [\<lparr>Type = KeyEd25519, Value = ''alice''\<rparr>] (newResponse 1) =
     Returned (None,
       (newResponse 1)\<lparr>Msg := Some ''created named key with address AAAAAAAAAAAAAAAAAAAAAAAAAAAAAAAA'',
                        Timestamp := Some 0\<rparr>,
       [(''alice'', ''AAAAAAAAAAAAAAAAAAAAAAAAAAAAAAAA'')])"
proof -
  let ?A = "''AAAAAAAAAAAAAAAAAAAAAAAAAAAAAAAA''"
  have addr: "take 1 ((replicate AddressLen (CHR 0x00))[0 := CHR 0x00]) @
      copy (drop 1 ((replicate AddressLen (CHR 0x00))[0 := CHR 0x00])) ?A = CHR 0x00 # ?A"
    by (rule address_bytes) simp
  have ps0: "createCallParams (sim_env []) (sim_cmd 0 sim_step Map.empty) [] (Params sim_step) (Endpoint sim_step) =
      Inr [\<lparr>Type = KeyEd25519, Value = ''alice''\<rparr>]"
    by (simp add: createCallParams_def createCallParam_def sim_step_def sim_env_def)
  have ps1: "createCallParams (sim_env []) (sim_cmd 1 sim_step Map.empty) [(''alice'', ?A)]
      (Params sim_step) (Endpoint sim_step) = Inr [\<lparr>Type = KeyEd25519, Value = CHR 0x00 # ?A\<rparr>]"
    using addr by (simp add: createCallParams_def createCallParam_def sim_step_def sim_env_def Let_def)
  have rsf0: "runStepFunc (sim_env []) [] EndpointKey 0 ''create''
       [\<lparr>Type = KeyEd25519, Value = ''alice''\<rparr>] (newResponse 0) =
     Returned (None,
       (newResponse 0)\<lparr>Msg := Some (''created named key with address '' @ ?A), Timestamp := Some 0\<rparr>,
       [(''alice'', ?A)])"
    by (simp add: runStepFunc_def runStepFunc_switch_def setMsg_def setTimestamp_def newResponse_def sim_env_def)
  have rsf1: "runStepFunc (sim_env []) [(''alice'', ?A)] EndpointKey 0 ''create''
       [\<lparr>Type = KeyEd25519, Value = CHR 0x00 # ?A\<rparr>] (newResponse 1) =
     Returned (None,
       (newResponse 1)\<lparr>Msg := Some (''created named key with address '' @ ''BAAAAAAAAAAAAAAAAAAAAAAAAAAAAAAA''),
                        Timestamp := Some 0\<rparr>,
       [(''alice'', ?A), (CHR 0x00 # ?A, ''BAAAAAAAAAAAAAAAAAAAAAAAAAAAAAAA'')])"
    by (simp add: runStepFunc_def runStepFunc_switch_def setMsg_def setTimestamp_def newResponse_def sim_env_def)
  have run0: "RunStep (sim_env []) (sim_cmd 0 sim_step Map.empty) [] =
     Returned ((Some ((newResponse 0)\<lparr>Msg := Some (''created named key with address '' @ ?A),
                                        Timestamp := Some 0\<rparr>), None),
       sim_cmd 1 sim_step Map.empty, [(''alice'', ?A)])"
    using ps0 rsf0
    by (simp add: RunStep_def sim_cmd_def sim_step_def getTxID_def newResponse_def Let_def)
  have run1: "RunStep (sim_env []) (sim_cmd 1 sim_step Map.empty) [(''alice'', ?A)] =
     Returned ((Some ((newResponse 1)\<lparr>Msg := Some (''created named key with address '' @ ''BAAAAAAAAAAAAAAAAAAAAAAAAAAAAAAA''),
                                        Timestamp := Some 0\<rparr>), None),
       sim_cmd 2 sim_step Map.empty,
       [(''alice'', ?A), (CHR 0x00 # ?A, ''BAAAAAAAAAAAAAAAAAAAAAAAAAAAAAAA'')])"
    using ps1 rsf1
    by (simp add: RunStep_def sim_cmd_def sim_step_def getTxID_def newResponse_def Let_def)
  have disp: "runStepFunc (sim_env []) [(''alice'', ?A)] EndpointKey 0 ''create''
       [\<lparr>Type = KeyEd25519, Value = ''alice''\<rparr>] (newResponse 1) =
     Returned (None,
       (newResponse 1)\<lparr>Msg := Some (''created named key with address '' @ ?A), Timestamp := Some 0\<rparr>,
       [(''alice'', ?A)])"
    by (simp add: runStepFunc_def runStepFunc_switch_def setMsg_def setTimestamp_def newResponse_def sim_env_def)
  from run0 ps1 run1 disp show ?thesis by simp
qed

end
